theory Spec2Isabelle
  imports Complex_Main
begin

section \<open>Python exceptions\<close>

text \<open>
  The exceptions that reach the code under study.  \<open>HttpError\<close> is the exception of
  the Sheets client (it carries the HTTP status: 404 for an unknown spreadsheet),
  \<open>WorksheetNotFound\<close> and \<open>APIError\<close> are gspread's, \<open>TransportError\<close> stands for
  socket and TLS failures.  \<open>KeyboardInterrupt\<close> and \<open>SystemExit\<close> derive from
  \<open>BaseException\<close> only, so a clause \<open>except Exception\<close> does not catch them.
\<close>

datatype exn =
    HttpError nat
  | WorksheetNotFound string
  | APIError nat
  | TransportError string
  | ValueError string
  | KeyError string
  | RuntimeError string
  | TypeError string
  | KeyboardInterrupt
  | SystemExit

fun is_Exception :: "exn \<Rightarrow> bool" where
  "is_Exception KeyboardInterrupt = False"
| "is_Exception SystemExit = False"
| "is_Exception _ = True"

section \<open>scribedash/google.py: the retry wrapper\<close>

text \<open>
  \<open>_with_retries(fn, attempts=5, base_delay=0.5, max_delay=5.0)\<close>.  The operation
  \<open>fn\<close> is a closure over a remote service: it is modelled as a function on the state
  of the world \<open>'s\<close> returning either a raised exception or a result.  What the wrapper
  does to the world is recorded as a trace of events: every call of \<open>fn\<close>, every
  warning it logs and every \<open>time.sleep\<close>.  The draws of \<open>random.random()\<close> are given
  by \<open>rnd\<close>: \<open>rnd i\<close> is the draw made after the failure of attempt \<open>i\<close>.
\<close>

datatype event = Invoke | Warning nat nat | Sleep real

type_synonym ('s, 'a) operation = "'s \<Rightarrow> (exn + 'a) \<times> 's"

definition backoff_delay :: "real \<Rightarrow> real \<Rightarrow> nat \<Rightarrow> real \<Rightarrow> real" where
  "backoff_delay base_delay max_delay i r =
     min max_delay (base_delay * 2 ^ i) * (0.7 + 0.6 * r)"

text \<open>
  The body of \<open>for i in range(attempts)\<close>, by recursion on the indices still to run.
  A result returns at once; an exception that \<open>except Exception\<close> catches is kept in
  \<open>last_err\<close>, logged and slept on; any other exception leaves the function at once.
  When the indices are used up the last exception is raised again, and with no
  exception captured (no attempt was made) the wrapper raises its own RuntimeError.
\<close>

fun retry_loop ::
  "('s, 'a) operation \<Rightarrow> (nat \<Rightarrow> real) \<Rightarrow> nat \<Rightarrow> real \<Rightarrow> real \<Rightarrow>
   nat list \<Rightarrow> exn option \<Rightarrow> 's \<Rightarrow> event list \<Rightarrow> (exn + 'a) \<times> 's \<times> event list" where
  "retry_loop fn rnd attempts base_delay max_delay [] last_err s tr =
     (case last_err of
        Some e \<Rightarrow> (Inl e, s, tr)
      | None \<Rightarrow>
          (Inl (RuntimeError ''Unknown error in _with_retries without captured exception''),
           s, tr))"
| "retry_loop fn rnd attempts base_delay max_delay (i # rest) last_err s tr =
     (case fn s of
        (Inr v, s') \<Rightarrow> (Inr v, s', tr @ [Invoke])
      | (Inl e, s') \<Rightarrow>
          if is_Exception e then
            retry_loop fn rnd attempts base_delay max_delay rest (Some e) s'
              (tr @ [Invoke, Warning (i + 1) attempts,
                     Sleep (backoff_delay base_delay max_delay i (rnd i))])
          else (Inl e, s', tr @ [Invoke]))"

definition with_retries ::
  "('s, 'a) operation \<Rightarrow> (nat \<Rightarrow> real) \<Rightarrow> int \<Rightarrow> real \<Rightarrow> real \<Rightarrow> 's \<Rightarrow>
   (exn + 'a) \<times> 's \<times> event list" where
  "with_retries fn rnd attempts base_delay max_delay s =
     retry_loop fn rnd (nat attempts) base_delay max_delay [0..<nat attempts] None s []"

definition invocations :: "event list \<Rightarrow> nat" where
  "invocations tr = length (filter (\<lambda>ev. ev = Invoke) tr)"

fun is_Sleep :: "event \<Rightarrow> bool" where
  "is_Sleep (Sleep d) = True"
| "is_Sleep _ = False"

definition sleeps :: "event list \<Rightarrow> nat" where
  "sleeps tr = length (filter is_Sleep tr)"

text \<open>
  \<open>fetch_values(service, spreadsheet_id, sheet_title)\<close>: the remote call answers
  with a dictionary; \<open>result.get("values", [])\<close> reads its key \<open>values\<close>, absent for a
  sheet with no cell filled.  The answer is modelled by the value under that key, if
  any.  The wrapper runs with its default parameters.
\<close>

type_synonym raw_rows = "string list list"

definition fetch_values ::
  "('s, raw_rows option) operation \<Rightarrow> (nat \<Rightarrow> real) \<Rightarrow> 's \<Rightarrow>
   (exn + raw_rows) \<times> 's \<times> event list" where
  "fetch_values call rnd s =
     (case with_retries call rnd 5 0.5 5.0 s of
        (Inl e, s', tr) \<Rightarrow> (Inl e, s', tr)
      | (Inr result, s', tr) \<Rightarrow>
          (Inr (case result of Some vs \<Rightarrow> vs | None \<Rightarrow> []), s', tr))"

section \<open>Tables\<close>

text \<open>
  A pandas DataFrame, as far as the code under study uses one: the column labels in
  order (strings from a header row, or positions \<open>0, 1, ...\<close> for a frame built
  without \<open>columns=\<close>) and the rows, each a list of cells.  A cell is a string, a number
  or missing (\<open>None\<close>, \<open>NaN\<close>, \<open>pd.NA\<close>).  \<open>pd.DataFrame()\<close> is the frame with no
  column and no row.
\<close>

datatype label = LStr string | LInt nat

datatype 'n cell = S string | N 'n | NA

record 'n dataframe =
  columns :: "label list"
  rows :: "'n cell list list"

definition empty_frame :: "'n dataframe" where
  "empty_frame = \<lparr>columns = [], rows = []\<rparr>"

text \<open>\<open>df.empty\<close>: an axis of length 0.\<close>

definition is_empty :: "'n dataframe \<Rightarrow> bool" where
  "is_empty df = (columns df = [] \<or> rows df = [])"

text \<open>The cells of the column at position \<open>j\<close>; every row of a frame has a cell there.\<close>

definition column_at :: "'n dataframe \<Rightarrow> nat \<Rightarrow> 'n cell list" where
  "column_at df j = map (\<lambda>r. r ! j) (rows df)"

definition set_column_at :: "'n dataframe \<Rightarrow> nat \<Rightarrow> 'n cell list \<Rightarrow> 'n dataframe" where
  "set_column_at df j cs = df\<lparr>rows := map (\<lambda>(r, c). r[j := c]) (zip (rows df) cs)\<rparr>"

text \<open>The positions of a label among the columns (a label may occur more than once).\<close>

definition positions :: "label list \<Rightarrow> label \<Rightarrow> nat list" where
  "positions cols l = filter (\<lambda>j. cols ! j = l) [0..<length cols]"

section \<open>scribedash/google.py: raw rows to a table\<close>

text \<open>
  \<open>values_to_dataframe(values)\<close>.  \<open>pad\<close> is the list comprehension
  \<open>r + [""] * (max_len - len(r))\<close>; \<open>len(set(headers)) == len(headers)\<close> is written with
  \<open>card\<close> as in the source.
\<close>

definition max_row_len :: "raw_rows \<Rightarrow> nat" where
  "max_row_len vs = Max (set (map length vs))"

definition pad :: "nat \<Rightarrow> string list \<Rightarrow> string list" where
  "pad max_len r = r @ replicate (max_len - length r) ''''"

definition has_headers :: "string list \<Rightarrow> bool" where
  "has_headers headers =
     ((\<exists>h \<in> set headers. h \<noteq> '''') \<and> card (set headers) = length headers)"

definition values_to_dataframe :: "raw_rows \<Rightarrow> 'n dataframe" where
  "values_to_dataframe vs =
     (if vs = [] then empty_frame
      else
        let max_len = max_row_len vs;
            rws = map (pad max_len) vs;
            headers = hd rws
        in if has_headers headers
           then \<lparr>columns = map LStr headers, rows = map (map S) (tl rws)\<rparr>
           else \<lparr>columns = map LInt [0..<max_len], rows = map (map S) rws\<rparr>)"

section \<open>Python strings and integers\<close>

text \<open>
  Strings are modelled as ASCII text.  \<open>str.strip()\<close> skips the characters Python
  counts as white space (codes 9 to 13, 28 to 31 and 32); \<open>str.lower()\<close> maps
  \<open>A..Z\<close> to \<open>a..z\<close>.
\<close>

definition is_space :: "char \<Rightarrow> bool" where
  "is_space c = (let n = (of_char c :: nat) in (9 \<le> n \<and> n \<le> 13) \<or> (28 \<le> n \<and> n \<le> 32))"

definition strip :: "string \<Rightarrow> string" where
  "strip s = rev (dropWhile is_space (rev (dropWhile is_space s)))"

definition lower_char :: "char \<Rightarrow> char" where
  "lower_char c =
     (let n = (of_char c :: nat) in if 65 \<le> n \<and> n \<le> 90 then char_of (n + 32) else c)"

definition lower :: "string \<Rightarrow> string" where
  "lower s = map lower_char s"

definition replace_space :: "string \<Rightarrow> string" where
  "replace_space s = map (\<lambda>c. if c = CHR '' '' then CHR ''_'' else c) s"

definition is_digit :: "char \<Rightarrow> bool" where
  "is_digit c = (let n = (of_char c :: nat) in 48 \<le> n \<and> n \<le> 57)"

definition digit_val :: "char \<Rightarrow> int" where
  "digit_val c = int (of_char c) - 48"

fun str_nat :: "nat \<Rightarrow> string" where
  "str_nat n =
     (if n < 10 then [char_of (48 + n)]
      else str_nat (n div 10) @ [char_of (48 + n mod 10)])"

text \<open>
  \<open>int(x)\<close> for a string \<open>x\<close>: white space around the text is skipped, one sign may
  lead, and the rest is decimal digits, where single underscores may stand between
  two digits.  Texts of more than 4300 digits are refused (the interpreter's limit
  on integer strings).  \<open>None\<close> is the \<open>ValueError\<close>.  The white space of \<open>int\<close> on
  ASCII text is narrower than that of \<open>str.strip()\<close>: the codes 9 to 13 and 32 only;
  a text with one of the codes 28 to 31 around the digits is refused.
\<close>

definition is_int_space :: "char \<Rightarrow> bool" where
  "is_int_space c = (let n = (of_char c :: nat) in (9 \<le> n \<and> n \<le> 13) \<or> n = 32)"

definition int_strip :: "string \<Rightarrow> string" where
  "int_strip s = rev (dropWhile is_int_space (rev (dropWhile is_int_space s)))"

fun no_double_underscore :: "string \<Rightarrow> bool" where
  "no_double_underscore (a # b # cs) =
     (\<not> (a = CHR ''_'' \<and> b = CHR ''_'') \<and> no_double_underscore (b # cs))"
| "no_double_underscore _ = True"

definition digits_ok :: "string \<Rightarrow> bool" where
  "digits_ok body =
     (body \<noteq> [] \<and> is_digit (hd body) \<and> is_digit (last body) \<and>
      (\<forall>c \<in> set body. is_digit c \<or> c = CHR ''_'') \<and> no_double_underscore body)"

definition digits_value :: "string \<Rightarrow> int" where
  "digits_value ds = foldl (\<lambda>acc c. 10 * acc + digit_val c) 0 ds"

definition py_int :: "string \<Rightarrow> int option" where
  "py_int x =
     (let t = int_strip x;
          negative = (t \<noteq> [] \<and> hd t = CHR ''-'');
          body = (if t \<noteq> [] \<and> (hd t = CHR ''-'' \<or> hd t = CHR ''+'') then tl t else t);
          ds = filter (\<lambda>c. c \<noteq> CHR ''_'') body
      in if digits_ok body \<and> length ds \<le> 4300
         then Some (if negative then - digits_value ds else digits_value ds)
         else None)"

section \<open>scribedash/ingest.py\<close>

text \<open>
  \<open>_parse_int_safe(x)\<close> is \<open>int(x)\<close> with every exception turned into \<open>None\<close>.  It is
  applied to the cells of a frame: \<open>int\<close> of a string parses it, \<open>int\<close> of an integer
  is that integer, \<open>int(None)\<close> raises and gives \<open>None\<close>.
\<close>

fun parse_int_safe :: "int cell \<Rightarrow> int option" where
  "parse_int_safe (S x) = py_int x"
| "parse_int_safe (N n) = Some n"
| "parse_int_safe NA = None"

definition of_parsed :: "'n option \<Rightarrow> 'n cell" where
  "of_parsed r = (case r of Some n \<Rightarrow> N n | None \<Rightarrow> NA)"

text \<open>\<open>str(c).strip().lower().replace(" ", "_")\<close> for a column label \<open>c\<close>.\<close>

fun label_str :: "label \<Rightarrow> string" where
  "label_str (LStr s) = s"
| "label_str (LInt n) = str_nat n"

definition normalize_label :: "label \<Rightarrow> label" where
  "normalize_label c = LStr (replace_space (lower (strip (label_str c))))"

text \<open>
  \<open>if col in df.columns: df[col] = df[col].apply(_parse_int_safe)\<close>.  With the label
  on one column the cells of that column are replaced, whatever the parse gives.  With
  the label on several columns \<open>df[col]\<close> is a frame, \<open>apply\<close> yields a series indexed
  by the repeated label, and the assignment fails to align it with the rows: pandas
  raises \<open>ValueError\<close>.
\<close>

definition apply_parse_int :: "int dataframe \<Rightarrow> string \<Rightarrow> exn + int dataframe" where
  "apply_parse_int df col =
     (case positions (columns df) (LStr col) of
        [] \<Rightarrow> Inr df
      | [j] \<Rightarrow> Inr (set_column_at df j (map (of_parsed \<circ> parse_int_safe) (column_at df j)))
      | _ \<Rightarrow> Inl (ValueError ''cannot reindex on an axis with duplicate labels''))"

fun coerce_columns :: "int dataframe \<Rightarrow> string list \<Rightarrow> exn + int dataframe" where
  "coerce_columns df [] = Inr df"
| "coerce_columns df (col # cols) =
     (case apply_parse_int df col of
        Inl e \<Rightarrow> Inl e
      | Inr df' \<Rightarrow> coerce_columns df' cols)"

definition month_columns :: "string list" where
  "month_columns =
     [''jan'', ''feb'', ''mar'', ''apr'', ''may'', ''jun'', ''july'', ''august'', ''avg'']"

definition patient_count_frame :: "raw_rows \<Rightarrow> exn + int dataframe" where
  "patient_count_frame vs =
     (let df = values_to_dataframe vs;
          df1 = df\<lparr>columns := map normalize_label (columns df)\<rparr>
      in coerce_columns df1 month_columns)"

text \<open>
  \<open>load_patient_count(service, spreadsheet_id)\<close>: an exception of the fetch or of
  the column assignment leaves the function; otherwise the result is the
  \<open>SheetResult\<close> of the name and the frame.
\<close>

definition load_patient_count ::
  "('s, raw_rows option) operation \<Rightarrow> (nat \<Rightarrow> real) \<Rightarrow> 's \<Rightarrow>
   (exn + string \<times> int dataframe) \<times> 's \<times> event list" where
  "load_patient_count call rnd s =
     (case fetch_values call rnd s of
        (Inl e, s', tr) \<Rightarrow> (Inl e, s', tr)
      | (Inr vs, s', tr) \<Rightarrow>
          (case patient_count_frame vs of
             Inl e \<Rightarrow> (Inl e, s', tr)
           | Inr df \<Rightarrow> (Inr (''Patient Count'', df), s', tr)))"

section \<open>src/utils/google_sheets.py: GoogleSheetsConnector\<close>

subsection \<open>Building and cleaning a frame\<close>

text \<open>
  \<open>pd.DataFrame(rows, columns=headers)\<close> for lists of strings: with no row the frame
  has the columns and no row; otherwise the rows are filled up with \<open>None\<close> to the
  longest of them, and pandas raises \<open>ValueError\<close> unless that length is the number of
  labels passed.
\<close>

definition build_frame :: "string list \<Rightarrow> raw_rows \<Rightarrow> exn + 'n dataframe" where
  "build_frame headers rws =
     (if rws = [] then Inr \<lparr>columns = map LStr headers, rows = []\<rparr>
      else
        let m = max_row_len rws
        in if m \<noteq> length headers
           then Inl (ValueError ''columns passed do not match the passed data'')
           else Inr \<lparr>columns = map LStr headers,
                     rows = map (\<lambda>r. map S r @ replicate (m - length r) NA) rws\<rparr>)"

text \<open>
  The numeric reading of one cell, as the loop of \<open>_clean_dataframe\<close> computes it for
  a column: \<open>astype(str)\<close>, the regular expression \<open>[%$,]\<close> replaced by nothing, the
  texts \<open>nan\<close>, the empty text and \<open>None\<close> replaced by \<open>pd.NA\<close>, then
  \<open>pd.to_numeric(..., errors='coerce')\<close>.  The parser of pandas for one text is the
  parameter \<open>to_numeric\<close>: \<open>None\<close> is the \<open>NaN\<close> it gives for a text that is no number.
  A missing cell prints as \<open>None\<close>; a number prints as a text that parses back to it.
\<close>

definition strip_symbols :: "string \<Rightarrow> string" where
  "strip_symbols s = filter (\<lambda>c. c \<noteq> CHR ''%'' \<and> c \<noteq> CHR ''$'' \<and> c \<noteq> CHR '','') s"

fun numeric_cell :: "(string \<Rightarrow> 'n option) \<Rightarrow> 'n cell \<Rightarrow> 'n option" where
  "numeric_cell to_numeric (S s) =
     (let cleaned = strip_symbols s
      in if cleaned = ''nan'' \<or> cleaned = '''' \<or> cleaned = ''None'' then None
         else to_numeric cleaned)"
| "numeric_cell to_numeric (N n) = Some n"
| "numeric_cell to_numeric NA = None"

text \<open>
  One column of the loop: a column with no cell or with every cell missing is skipped;
  otherwise the numeric column replaces the cells when \<open>null_count < total_count\<close>,
  and the cells stay as they are when every cell came out missing.
\<close>

definition clean_column :: "(string \<Rightarrow> 'n option) \<Rightarrow> 'n cell list \<Rightarrow> 'n cell list" where
  "clean_column to_numeric cs =
     (if length cs = 0 then cs
      else if length (filter (\<lambda>c. c = NA) cs) = length cs then cs
      else
        let numeric_col = map (numeric_cell to_numeric) cs;
            null_count = length (filter (\<lambda>x. x = None) numeric_col);
            total_count = length numeric_col
        in if null_count < total_count then map of_parsed numeric_col else cs)"

text \<open>
  \<open>not col or str(col).strip() == ''\<close> for a label; the position \<open>0\<close> is falsy.
\<close>

fun skipped_label :: "label \<Rightarrow> bool" where
  "skipped_label (LStr s) = (s = [] \<or> strip s = [])"
| "skipped_label (LInt n) = (n = 0 \<or> strip (str_nat n) = [])"

fun is_LStr :: "label \<Rightarrow> bool" where
  "is_LStr (LStr s) = True"
| "is_LStr (LInt n) = False"

fun unnamed :: "label \<Rightarrow> bool" where
  "unnamed (LStr s) = (take 7 s = ''Unnamed'')"
| "unnamed (LInt n) = False"

definition select_columns :: "'n dataframe \<Rightarrow> nat list \<Rightarrow> 'n dataframe" where
  "select_columns df js =
     \<lparr>columns = map (\<lambda>j. columns df ! j) js, rows = map (\<lambda>r. map (\<lambda>j. r ! j) js) (rows df)\<rparr>"

text \<open>
  The body of \<open>for col in df.columns\<close> at the position \<open>j\<close> of the label.  A label
  that stands on several columns makes \<open>df[col]\<close> a frame: with no row the column is
  skipped, with rows \<open>if is_all_null\<close> raises \<open>ValueError\<close>, the handler of the loop
  logs it and goes on; the columns stay as they are either way.
\<close>

definition clean_at :: "(string \<Rightarrow> 'n option) \<Rightarrow> nat \<Rightarrow> 'n dataframe \<Rightarrow> 'n dataframe" where
  "clean_at to_numeric j df =
     (let col = columns df ! j
      in if skipped_label col then df
         else if length (positions (columns df) col) \<noteq> 1 then df
         else set_column_at df j (clean_column to_numeric (column_at df j)))"

text \<open>
  \<open>df.dropna(how='all')\<close> drops the rows with every cell missing.  The columns whose
  label matches \<open>^Unnamed\<close> are dropped when \<open>hasattr(df.columns, 'str')\<close>, that is
  when the labels are all strings.
\<close>

definition dropna_all :: "'n dataframe \<Rightarrow> 'n dataframe" where
  "dropna_all df = df\<lparr>rows := filter (\<lambda>r. \<exists>c \<in> set r. c \<noteq> NA) (rows df)\<rparr>"

definition drop_unnamed :: "'n dataframe \<Rightarrow> 'n dataframe" where
  "drop_unnamed df =
     (if list_all is_LStr (columns df)
      then select_columns df (filter (\<lambda>j. \<not> unnamed (columns df ! j)) [0..<length (columns df)])
      else df)"

text \<open>
  \<open>_clean_dataframe(df)\<close>: an empty frame is returned as it is; otherwise the rows and
  columns are dropped as above and the loop runs over the columns that are left.
\<close>

definition clean_dataframe :: "(string \<Rightarrow> 'n option) \<Rightarrow> 'n dataframe \<Rightarrow> 'n dataframe" where
  "clean_dataframe to_numeric df =
     (if is_empty df then df
      else
        let df1 = dropna_all df;
            df2 = drop_unnamed df1
        in fold (clean_at to_numeric) [0..<length (columns df2)] df2)"

text \<open>A frame is rectangular: every row has a cell for every column.\<close>

definition rectangular :: "'n dataframe \<Rightarrow> bool" where
  "rectangular df = (\<forall>r \<in> set (rows df). length r = length (columns df))"

subsection \<open>The store of frames and the cache\<close>

text \<open>
  Frames are objects: the store maps an address to the frame that lives there, and
  \<open>next_addr\<close> is the first address not yet in use.  Creating a frame and
  \<open>DataFrame.copy()\<close> allocate a new address; a caller that mutates a frame it holds
  changes the store at that address.
\<close>

record 'n store =
  objs :: "nat \<Rightarrow> 'n dataframe"
  next_addr :: nat

definition alloc :: "'n dataframe \<Rightarrow> 'n store \<Rightarrow> nat \<times> 'n store" where
  "alloc df st = (next_addr st, \<lparr>objs = (objs st)(next_addr st := df), next_addr = Suc (next_addr st)\<rparr>)"

definition copy_frame :: "nat \<Rightarrow> 'n store \<Rightarrow> nat \<times> 'n store" where
  "copy_frame a st = alloc (objs st a) st"


record cache_entry =
  data :: nat
  timestamp :: real

record connector =
  spreadsheet_id :: string
  cache :: "string \<rightharpoonup> cache_entry"
  cache_ttl :: real
  last_request_time :: real
  min_request_interval :: real
  connected :: bool

text \<open>
  What one call of \<open>get_sheet_data\<close> reads from outside: the values of \<open>time.time()\<close>
  at its four places (the check of the cache, the entry and the exit of \<open>_rate_limit\<close>,
  the moment of caching), what \<open>spreadsheet.worksheet(name).get_all_values()\<close> does, and
  the frame of \<open>_generate_sample_data\<close>.  \<open>connected\<close> is the test
  \<open>self.client and self.spreadsheet\<close>.
\<close>

record 'n call_env =
  t_valid :: real
  t_rate :: real
  t_request :: real
  t_store :: real
  worksheet_values :: "exn + raw_rows"
  sample_data :: "'n dataframe"

text \<open>
  \<open>_get_cache_key\<close>: the MD5 digest, a parameter, of \<open>f"{sheet_name}_{range_name}_{id}"\<close>
  with \<open>range_name = None\<close>.
\<close>

definition get_cache_key :: "(string \<Rightarrow> string) \<Rightarrow> connector \<Rightarrow> string \<Rightarrow> string" where
  "get_cache_key md5 c sheet_name = md5 (sheet_name @ ''_None_'' @ spreadsheet_id c)"

definition is_cache_valid :: "connector \<Rightarrow> string \<Rightarrow> real \<Rightarrow> bool" where
  "is_cache_valid c cache_key now =
     (case cache c cache_key of
        None \<Rightarrow> False
      | Some entry \<Rightarrow> now - timestamp entry < cache_ttl c)"

text \<open>\<open>_rate_limit\<close>: the sleep lets time pass; the state keeps the time after it.\<close>

definition rate_limit :: "'n call_env \<Rightarrow> connector \<Rightarrow> connector" where
  "rate_limit env c = c\<lparr>last_request_time := t_request env\<rparr>"

text \<open>
  The \<open>try\<close> block of \<open>get_sheet_data\<close> up to the frame \<open>data\<close>: \<open>Inl\<close> is an exception
  raised inside the block.
\<close>

definition load_data ::
  "(string \<Rightarrow> 'n option) \<Rightarrow> 'n call_env \<Rightarrow> connector \<Rightarrow> (exn + 'n dataframe) \<times> connector" where
  "load_data to_numeric env c =
     (if connected c then
        (case worksheet_values env of
           Inl e \<Rightarrow> (Inl e, rate_limit env c)
         | Inr data_values \<Rightarrow>
             if data_values \<noteq> [] then
               (case build_frame (hd data_values) (tl data_values) of
                  Inl e \<Rightarrow> (Inl e, rate_limit env c)
                | Inr df \<Rightarrow> (Inr (clean_dataframe to_numeric df), rate_limit env c))
             else (Inr empty_frame, rate_limit env c))
      else (Inr (sample_data env), c))"

text \<open>
  \<open>get_sheet_data(sheet_name, use_cache)\<close>.  A valid cache entry is answered with a
  copy of the cached frame.  Otherwise the frame is loaded; \<open>except Exception\<close> logs
  the exception and returns a new empty frame; a loaded frame is returned itself, and
  with \<open>use_cache\<close> a copy of it is stored in the cache with the time.  The result is
  the address of the returned frame.
\<close>

definition get_sheet_data ::
  "(string \<Rightarrow> string) \<Rightarrow> (string \<Rightarrow> 'n option) \<Rightarrow> 'n call_env \<Rightarrow> string \<Rightarrow> bool \<Rightarrow>
   connector \<Rightarrow> 'n store \<Rightarrow> (exn + nat) \<times> connector \<times> 'n store" where
  "get_sheet_data md5 to_numeric env sheet_name use_cache c st =
     (let cache_key = get_cache_key md5 c sheet_name
      in case (if use_cache \<and> is_cache_valid c cache_key (t_valid env)
               then cache c cache_key else None) of
           Some entry \<Rightarrow>
             (let (a, st') = copy_frame (data entry) st in (Inr a, c, st'))
         | None \<Rightarrow>
             (case load_data to_numeric env c of
                (Inl e, c') \<Rightarrow>
                  if is_Exception e
                  then (let (a, st') = alloc empty_frame st in (Inr a, c', st'))
                  else (Inl e, c', st)
              | (Inr df, c') \<Rightarrow>
                  (let (a, st1) = alloc df st
                   in if use_cache
                      then (let (b, st2) = copy_frame a st1
                            in (Inr a,
                                c'\<lparr>cache := (cache c')(cache_key \<mapsto>
                                      \<lparr>data = b, timestamp = t_store env\<rparr>)\<rparr>,
                                st2))
                      else (Inr a, c', st1))))"

section \<open>src/utils/data_processor.py: DataProcessor\<close>

subsection \<open>Numbers of the aggregation\<close>

text \<open>
  The aggregates are floating point numbers.  Finite arithmetic is modelled by exact
  arithmetic on reals; a missing number (\<open>NaN\<close>) is \<open>None\<close>.  The quotient of two
  aggregates can leave the finite numbers: \<open>fval\<close> adds \<open>NaN\<close> and \<open>Infinite\<close>, which
  stands for an infinity of either sign.
\<close>

datatype fval = Fin real | Infinite | NaN

text \<open>\<open>round(2)\<close>: to the nearest hundredth, a tie to the even neighbour.\<close>

definition rint :: "real \<Rightarrow> int" where
  "rint x =
     (let f = \<lfloor>x\<rfloor>; d = x - of_int f
      in if d < 1 / 2 then f else if 1 / 2 < d then f + 1 else if even f then f else f + 1)"

definition round2 :: "real \<Rightarrow> real" where
  "round2 x = of_int (rint (x * 100)) / 100"

text \<open>\<open>pd.to_numeric(column, errors='coerce')\<close> on one cell; no symbol is stripped.\<close>

fun to_numeric_coerce :: "(string \<Rightarrow> 'n option) \<Rightarrow> 'n cell \<Rightarrow> 'n option" where
  "to_numeric_coerce to_numeric (S s) = to_numeric s"
| "to_numeric_coerce to_numeric (N n) = Some n"
| "to_numeric_coerce to_numeric NA = None"

text \<open>
  The aggregations of a group skip the missing numbers: \<open>sum\<close> of none is 0, \<open>mean\<close> of
  none is missing, \<open>std\<close> is the sample standard deviation (divisor \<open>n - 1\<close>), missing
  with fewer than two numbers.
\<close>

definition present :: "real option list \<Rightarrow> real list" where
  "present xs = List.map_filter (\<lambda>x. x) xs"

definition agg_sum :: "real option list \<Rightarrow> real" where
  "agg_sum xs = sum_list (present xs)"

definition agg_mean :: "real option list \<Rightarrow> real option" where
  "agg_mean xs =
     (let ys = present xs
      in if ys = [] then None else Some (sum_list ys / real (length ys)))"

definition agg_std :: "real option list \<Rightarrow> real option" where
  "agg_std xs =
     (let ys = present xs; n = length ys
      in if n < 2 then None
         else
           let m = sum_list ys / real n
           in Some (sqrt (sum_list (map (\<lambda>y. (y - m)\<^sup>2) ys) / real (n - 1))))"

text \<open>
  \<open>100 - (std / mean * 100)\<close> on two columns, then \<open>.fillna(100)\<close>.  A quotient with a
  missing operand is \<open>NaN\<close>, and so is \<open>0 / 0\<close>; a number other than 0 divided by 0 is
  infinite.  \<open>fillna\<close> replaces \<open>NaN\<close> only.
\<close>

fun fdiv :: "real option \<Rightarrow> real option \<Rightarrow> fval" where
  "fdiv (Some a) (Some b) = (if b = 0 then (if a = 0 then NaN else Infinite) else Fin (a / b))"
| "fdiv _ _ = NaN"

fun times_100 :: "fval \<Rightarrow> fval" where
  "times_100 (Fin x) = Fin (x * 100)"
| "times_100 Infinite = Infinite"
| "times_100 NaN = NaN"

fun from_100 :: "fval \<Rightarrow> fval" where
  "from_100 (Fin x) = Fin (100 - x)"
| "from_100 Infinite = Infinite"
| "from_100 NaN = NaN"

fun fillna :: "real \<Rightarrow> fval \<Rightarrow> fval" where
  "fillna v NaN = Fin v"
| "fillna v x = x"

definition consistency_score :: "real option \<Rightarrow> real option \<Rightarrow> fval" where
  "consistency_score std mean = fillna 100 (from_100 (times_100 (fdiv std mean)))"

subsection \<open>The provider aggregator\<close>

record provider_stats =
  Patient_Count_sum :: real
  Patient_Count_mean :: "real option"
  Patient_Count_std :: "real option"
  Avg_Session_Duration_mean :: "real option"
  Consistency_Score :: fval

text \<open>
  One row of \<open>provider_stats\<close>: the aggregates of a group, rounded to two decimals by
  \<open>.round(2)\<close>, and the score computed from the rounded columns.
\<close>

definition group_stats :: "real option list \<Rightarrow> real option list \<Rightarrow> provider_stats" where
  "group_stats counts durations =
     (let s = round2 (agg_sum counts);
          m = map_option round2 (agg_mean counts);
          sd = map_option round2 (agg_std counts);
          dm = map_option round2 (agg_mean durations)
      in \<lparr>Patient_Count_sum = s, Patient_Count_mean = m, Patient_Count_std = sd,
          Avg_Session_Duration_mean = dm, Consistency_Score = consistency_score sd m\<rparr>)"

text \<open>
  The position of a column selected by its name: \<open>KeyError\<close> when no column has the
  name, and the exception \<open>dup\<close> of the operation at hand when several have it.
\<close>

definition column_pos :: "label list \<Rightarrow> string \<Rightarrow> exn \<Rightarrow> exn + nat" where
  "column_pos cols name dup =
     (case positions cols (LStr name) of
        [] \<Rightarrow> Inl (KeyError name)
      | [j] \<Rightarrow> Inr j
      | _ \<Rightarrow> Inl dup)"

text \<open>
  \<open>_process_provider_data\<close>.  The result table has one row for each provider that is
  not missing; it is given as the map from the provider to its row (the order of the
  rows is left out).  Without the sheet, or with an empty one, the table is empty.
\<close>

definition process_provider_data ::
  "(string \<Rightarrow> real option) \<Rightarrow> (string \<rightharpoonup> real dataframe) \<Rightarrow>
   exn + (real cell \<rightharpoonup> provider_stats)" where
  "process_provider_data to_numeric raw_data =
     (case raw_data ''Patient Count'' of
        None \<Rightarrow> Inr Map.empty
      | Some df \<Rightarrow>
          if is_empty df then Inr Map.empty
          else
            (case column_pos (columns df) ''Patient Count''
                    (TypeError ''arg must be a list, tuple, 1-d array, or Series'') of
               Inl e \<Rightarrow> Inl e
             | Inr jc \<Rightarrow>
                 (case column_pos (columns df) ''Avg Session Duration''
                         (TypeError ''arg must be a list, tuple, 1-d array, or Series'') of
                    Inl e \<Rightarrow> Inl e
                  | Inr jd \<Rightarrow>
                      (case column_pos (columns df) ''Provider''
                              (ValueError ''Grouper for Provider not 1-dimensional'') of
                         Inl e \<Rightarrow> Inl e
                       | Inr jp \<Rightarrow>
                           Inr (\<lambda>k. if k = NA \<or> k \<notin> set (column_at df jp) then None
                                    else
                                      let grp = filter (\<lambda>r. r ! jp = k) (rows df)
                                      in Some (group_stats
                                           (map (\<lambda>r. to_numeric_coerce to_numeric (r ! jc)) grp)
                                           (map (\<lambda>r. to_numeric_coerce to_numeric (r ! jd)) grp)))))))"

subsection \<open>The snapshot and its accessors\<close>

text \<open>
  \<open>processed_data\<close> is a dictionary; the accessors below read its keys \<open>scribes\<close> and
  \<open>metrics\<close>, each present or not.  A metric is a number, a count or, for
  \<open>team_comparison\<close>, a dictionary of dictionaries; \<open>{}\<close> is \<open>Table []\<close>.
\<close>

datatype metric =
    Number "real option"
  | Count nat
  | Table "(string \<times> (string \<times> real option) list) list"

record processed_data =
  scribes :: "real dataframe option"
  metrics :: "(string \<rightharpoonup> metric) option"

text \<open>
  \<open>_process_scribe_data\<close>: without the sheet \<open>Dataset\<close>, or with an empty one, the
  result is \<open>pd.DataFrame()\<close>.  What the function does with a sheet that has rows
  (defaults, coercion, categories, team averages) is the parameter \<open>derive\<close>.
\<close>

definition process_scribe_data ::
  "(real dataframe \<Rightarrow> exn + real dataframe) \<Rightarrow> (string \<rightharpoonup> real dataframe) \<Rightarrow>
   exn + real dataframe" where
  "process_scribe_data derive raw_data =
     (case raw_data ''Dataset'' of
        None \<Rightarrow> Inr empty_frame
      | Some df \<Rightarrow> if is_empty df then Inr empty_frame else derive df)"

text \<open>
  \<open>_process_all_data\<close>: the four entries are computed and stored in order inside
  one \<open>try\<close>; the first exception ends the block, is shown, and leaves the later keys
  absent.  The session processing and \<open>_calculate_metrics\<close> are parameters.  An
  exception that \<open>except Exception\<close> does not catch leaves the constructor.
\<close>

definition handled :: "exn \<Rightarrow> processed_data \<Rightarrow> exn + processed_data" where
  "handled e pd = (if is_Exception e then Inr pd else Inl e)"

definition process_all_data ::
  "(real dataframe \<Rightarrow> exn + real dataframe) \<Rightarrow> (string \<Rightarrow> real option) \<Rightarrow>
   ((string \<rightharpoonup> real dataframe) \<Rightarrow> exn + real dataframe) \<Rightarrow>
   (real dataframe \<Rightarrow> exn + (string \<rightharpoonup> metric)) \<Rightarrow>
   (string \<rightharpoonup> real dataframe) \<Rightarrow> exn + processed_data" where
  "process_all_data derive to_numeric process_sessions calculate_metrics raw_data =
     (case process_scribe_data derive raw_data of
        Inl e \<Rightarrow> handled e \<lparr>scribes = None, metrics = None\<rparr>
      | Inr sdf \<Rightarrow>
          (case process_provider_data to_numeric raw_data of
             Inl e \<Rightarrow> handled e \<lparr>scribes = Some sdf, metrics = None\<rparr>
           | Inr pstats \<Rightarrow>
               (case process_sessions raw_data of
                  Inl e \<Rightarrow> handled e \<lparr>scribes = Some sdf, metrics = None\<rparr>
                | Inr sessions \<Rightarrow>
                    (case calculate_metrics sdf of
                       Inl e \<Rightarrow> handled e \<lparr>scribes = Some sdf, metrics = None\<rparr>
                     | Inr m \<Rightarrow> Inr \<lparr>scribes = Some sdf, metrics = Some m\<rparr>))))"

text \<open>
  \<open>get_scribe_performance(scribe_name=None)\<close>.  \<open>if scribe_name\<close> is false for \<open>None\<close>
  and for the empty string.  \<open>df['Scribe Name']\<close> raises \<open>KeyError\<close> on a frame with no
  such column; the comparison keeps the rows whose cell is that string.
\<close>

definition get_scribe_performance ::
  "processed_data \<Rightarrow> string option \<Rightarrow> exn + real dataframe" where
  "get_scribe_performance pd scribe_name =
     (case scribes pd of
        None \<Rightarrow> Inr empty_frame
      | Some df \<Rightarrow>
          (case scribe_name of
             None \<Rightarrow> Inr df
           | Some name \<Rightarrow>
               if name = [] then Inr df
               else
                 (case column_pos (columns df) ''Scribe Name''
                         (ValueError ''cannot reindex on an axis with duplicate labels'') of
                    Inl e \<Rightarrow> Inl e
                  | Inr j \<Rightarrow> Inr (df\<lparr>rows := filter (\<lambda>r. r ! j = S name) (rows df)\<rparr>))))"

text \<open>\<open>get_team_comparison()\<close>.\<close>

definition get_team_comparison :: "processed_data \<Rightarrow> metric" where
  "get_team_comparison pd =
     (case metrics pd of
        None \<Rightarrow> Table []
      | Some m \<Rightarrow> (case m ''team_comparison'' of None \<Rightarrow> Table [] | Some t \<Rightarrow> t))"

section \<open>Traces and operations used in the statements\<close>

text \<open>
  What one failed attempt \<open>i\<close> adds to the trace of the retry wrapper, and the trace of
  \<open>n\<close> failed attempts in a row from attempt \<open>i\<close> on.
\<close>

definition failure_events :: "(nat \<Rightarrow> real) \<Rightarrow> nat \<Rightarrow> real \<Rightarrow> real \<Rightarrow> nat \<Rightarrow> event list" where
  "failure_events rnd attempts base_delay max_delay i =
     [Invoke, Warning (i + 1) attempts, Sleep (backoff_delay base_delay max_delay i (rnd i))]"

definition failure_trace ::
  "(nat \<Rightarrow> real) \<Rightarrow> nat \<Rightarrow> real \<Rightarrow> real \<Rightarrow> nat \<Rightarrow> nat \<Rightarrow> event list" where
  "failure_trace rnd attempts base_delay max_delay i n =
     concat (map (failure_events rnd attempts base_delay max_delay) [i..<i + n])"

text \<open>
  Two operations on a world that counts the calls made so far: one fails with status
  503 on its first two calls and then returns, the other always answers 404.
\<close>

definition flaky :: "(nat, nat) operation" where
  "flaky k = (if k < 2 then Inl (HttpError 503) else Inr (10 * k), Suc k)"

definition always_not_found :: "(nat, raw_rows option) operation" where
  "always_not_found k = (Inl (HttpError 404), Suc k)"

text \<open>Raw rows used as examples: the inputs named in the specification and ragged ones.\<close>

definition score_rows :: raw_rows where
  "score_rows = [[''Name'', ''Score''], [''Ann'', ''95''], [''Bo'', '''']]"


definition short_header_rows :: raw_rows where
  "short_header_rows = [[''A''], [''1'', ''2'', ''3'']]"

definition ragged_rows :: raw_rows where
  "ragged_rows = [[''Name'', ''Score'', ''''], [''Ann'', ''95'', ''7''], [''Bo'']]"

text \<open>
  Frames used as examples: the frame that \<open>get_sheet_data\<close> builds from the rows of
  \<open>score_rows\<close>, and a frame with one designated month column.
\<close>

definition score_frame :: "'n dataframe" where
  "score_frame =
     \<lparr>columns = [LStr ''Name'', LStr ''Score''],
      rows = [[S ''Ann'', S ''95''], [S ''Bo'', S '''']]\<rparr>"

definition january_frame :: "int dataframe" where
  "january_frame = \<lparr>columns = [LStr ''jan''], rows = [[S ''n/a''], [S ''1,000'']]\<rparr>"


definition returned :: "(exn + nat) \<times> connector \<times> 'n store \<Rightarrow> 'n dataframe option" where
  "returned res =
     (case res of
        (Inr a, c, st) \<Rightarrow> Some (objs st a)
      | (Inl e, c, st) \<Rightarrow> None)"

text \<open>
  A connector with nothing cached, a store with no frame, and the environment of a
  call for a tab the spreadsheet does not have.
\<close>

definition fresh_connector :: connector where
  "fresh_connector =
     \<lparr>spreadsheet_id = ''sheet-id'', cache = Map.empty, cache_ttl = 300,
      last_request_time = 0, min_request_interval = 1, connected = True\<rparr>"

definition empty_store :: "int store" where
  "empty_store = \<lparr>objs = (\<lambda>a. empty_frame), next_addr = 0\<rparr>"

definition unknown_tab_env :: "int call_env" where
  "unknown_tab_env =
     \<lparr>t_valid = 10, t_rate = 10, t_request = 11, t_store = 12,
      worksheet_values = Inl (WorksheetNotFound ''Nope''), sample_data = empty_frame\<rparr>"


text \<open>
  The environment of a later call, 88 seconds after the frame was cached: the tab has
  gone by then, so that only the cache can answer.
\<close>

definition later_env :: "int call_env" where
  "later_env =
     \<lparr>t_valid = 100, t_rate = 100, t_request = 101, t_store = 102,
      worksheet_values = Inl (WorksheetNotFound ''Scores''), sample_data = empty_frame\<rparr>"

text \<open>
  The remote call of \<open>fetch_values\<close> on a world that counts the calls: it fails with
  status 503 twice and then answers with the rows of \<open>score_rows\<close>.  The call
  \<open>score_call\<close> is the first \<open>get_sheet_data\<close> of a connector for a tab with these rows.
\<close>

definition flaky_rows :: "(nat, raw_rows option) operation" where
  "flaky_rows k = (if k < 2 then Inl (HttpError 503) else Inr (Some score_rows), Suc k)"


text \<open>
  A sheet \<open>Patient Count\<close> with two providers: the counts of the first are all 80, the
  counts of the second are \<open>-1\<close>, 0 and 1.
\<close>

definition provider_frame :: "real dataframe" where
  "provider_frame =
     \<lparr>columns = [LStr ''Provider'', LStr ''Patient Count'', LStr ''Avg Session Duration''],
      rows = [[S ''Dr A'', N 80, N 30], [S ''Dr A'', N 80, N 40], [S ''Dr A'', N 80, N 50],
              [S ''Dr B'', N (- 1), N 30], [S ''Dr B'', N 0, N 30], [S ''Dr B'', N 1, N 30]]\<rparr>"

definition provider_sheets :: "string \<rightharpoonup> real dataframe" where
  "provider_sheets = [''Patient Count'' \<mapsto> provider_frame]"

text \<open>A table of scribes with one row, as \<open>processed_data['scribes']\<close> holds it.\<close>

definition scribe_frame :: "real dataframe" where
  "scribe_frame =
     \<lparr>columns = [LStr ''Scribe Name'', LStr ''Team''], rows = [[S ''Ann'', S ''Red'']]\<rparr>"

section \<open>Properties of the retry wrapper\<close>

lemma failure_trace_0: "failure_trace rnd a bd md i 0 = []"
  by (simp add: failure_trace_def)

lemma failure_trace_Suc:
  "failure_trace rnd a bd md i (Suc n) =
     failure_events rnd a bd md i @ failure_trace rnd a bd md (Suc i) n"
proof -
  have "[i..<i + Suc n] = i # [Suc i..<Suc i + n]"
    by (simp add: upt_conv_Cons)
  then show ?thesis
    by (simp add: failure_trace_def)
qed

lemma invocations_failure_trace: "invocations (failure_trace rnd a bd md i n) = n"
  by (induction n arbitrary: i)
     (simp_all add: failure_trace_0 failure_trace_Suc invocations_def failure_events_def)

lemma sleeps_failure_trace: "sleeps (failure_trace rnd a bd md i n) = n"
  by (induction n arbitrary: i)
     (simp_all add: failure_trace_0 failure_trace_Suc sleeps_def failure_events_def)

lemma invocations_append: "invocations (xs @ ys) = invocations xs + invocations ys"
  by (simp add: invocations_def)

lemma sleeps_append: "sleeps (xs @ ys) = sleeps xs + sleeps ys"
  by (simp add: sleeps_def)

lemma retry_loop_failures:
  assumes "\<And>k. k < n \<Longrightarrow> fn (st (i + k)) = (Inl (e (i + k)), st (Suc (i + k))) \<and> is_Exception (e (i + k))"
  shows "retry_loop fn rnd a bd md ([i..<i + n] @ rest) last_err (st i) tr =
         retry_loop fn rnd a bd md rest (if n = 0 then last_err else Some (e (i + n - 1)))
           (st (i + n)) (tr @ failure_trace rnd a bd md i n)"
  using assms
proof (induction n arbitrary: i last_err tr)
  case 0
  then show ?case by (simp add: failure_trace_0)
next
  case (Suc n)
  have step: "fn (st i) = (Inl (e i), st (Suc i))" "is_Exception (e i)"
    using Suc.prems[of 0] by simp_all
  have rest: "\<And>k. k < n \<Longrightarrow> fn (st (Suc i + k)) = (Inl (e (Suc i + k)), st (Suc (Suc i + k))) \<and> is_Exception (e (Suc i + k))"
    using Suc.prems[of "Suc k" for k] by simp
  have upt: "[i..<i + Suc n] = i # [Suc i..<Suc i + n]"
    by (simp add: upt_conv_Cons)
  show ?case
    unfolding upt
    using Suc.IH[OF rest, of "Some (e i)" "tr @ failure_events rnd a bd md i"] step
    by (simp add: failure_trace_Suc failure_events_def)
qed

lemma retry_loop_success:
  assumes "fn s = (Inr v, s')"
  shows "retry_loop fn rnd a bd md (i # rest) last_err s tr = (Inr v, s', tr @ [Invoke])"
  using assms by simp

lemma with_retries_all_fail:
  assumes "0 < n"
    and "\<And>k. k < n \<Longrightarrow> fn (st k) = (Inl (e k), st (Suc k)) \<and> is_Exception (e k)"
  shows "with_retries fn rnd (int n) bd md (st 0) =
         (Inl (e (n - 1)), st n, failure_trace rnd n bd md 0 n)"
proof -
  have "retry_loop fn rnd n bd md ([0..<0 + n] @ []) None (st 0) [] =
        retry_loop fn rnd n bd md [] (if n = 0 then None else Some (e (0 + n - 1)))
          (st (0 + n)) ([] @ failure_trace rnd n bd md 0 n)"
    by (rule retry_loop_failures) (use assms(2) in simp)
  with assms(1) show ?thesis
    by (simp add: with_retries_def)
qed

lemma with_retries_fail_then_succeed:
  assumes "m < n"
    and "\<And>k. k < m \<Longrightarrow> fn (st k) = (Inl (e k), st (Suc k)) \<and> is_Exception (e k)"
    and "fn (st m) = (Inr v, s')"
  shows "with_retries fn rnd (int n) bd md (st 0) =
         (Inr v, s', failure_trace rnd n bd md 0 m @ [Invoke])"
proof -
  have split: "[0..<n] = [0..<0 + m] @ (m # [Suc m..<n])"
  proof -
    have "[0..<n] = [0..<m] @ [m..<n]"
      using assms(1) upt_add_eq_append[of 0 m "n - m"] by simp
    moreover have "[m..<n] = m # [Suc m..<n]"
      using assms(1) by (simp add: upt_conv_Cons)
    ultimately show ?thesis by simp
  qed
  have "retry_loop fn rnd n bd md ([0..<0 + m] @ (m # [Suc m..<n])) None (st 0) [] =
        retry_loop fn rnd n bd md (m # [Suc m..<n]) (if m = 0 then None else Some (e (0 + m - 1)))
          (st (0 + m)) ([] @ failure_trace rnd n bd md 0 m)"
    by (rule retry_loop_failures) (use assms(2) in simp)
  then show ?thesis
    using assms(3) by (simp add: with_retries_def split)
qed

lemma retry_loop_success_origin:
  "retry_loop fn rnd a bd md is last_err s tr = (Inr v, s', tr') \<Longrightarrow> \<exists>s0. fn s0 = (Inr v, s')"
  by (induction "is" arbitrary: last_err s tr)
     (auto split: option.splits sum.splits prod.splits if_splits)


lemma fetch_values_all_fail:
  assumes "\<And>k. k < 5 \<Longrightarrow> call (st k) = (Inl (e k), st (Suc k)) \<and> is_Exception (e k)"
  shows "fetch_values call rnd (st 0) = (Inl (e 4), st 5, failure_trace rnd 5 0.5 5 0 5)"
  using with_retries_all_fail[of 5 call st e rnd "0.5" 5] assms
  by (simp add: fetch_values_def)

lemma fetch_values_rows_origin:
  assumes "fetch_values call rnd s = (Inr vs, s', tr)"
  shows "\<exists>s0 r. call s0 = (Inr r, s') \<and> vs = (case r of Some v \<Rightarrow> v | None \<Rightarrow> [])"
proof -
  obtain r where r: "with_retries call rnd 5 0.5 5 s = (Inr r, s', tr)"
    and vs: "vs = (case r of Some v \<Rightarrow> v | None \<Rightarrow> [])"
    using assms by (auto simp: fetch_values_def split: prod.splits sum.splits)
  from r obtain s0 where "call s0 = (Inr r, s')"
    unfolding with_retries_def by (blast dest: retry_loop_success_origin)
  with vs show ?thesis by blast
qed

text \<open>
  Claim C3.  An operation that raises (an exception \<open>except Exception\<close> catches) on its
  first two invocations and returns \<open>v\<close> on the third: the wrapper with 5 attempts
  returns \<open>v\<close>, the world is the one the third invocation left, and the trace holds
  exactly 3 invocations.  An operation whose \<open>n\<close> invocations all raise, with \<open>n > 0\<close>
  attempts: the wrapper raises the exception of the last invocation itself, after
  exactly \<open>n\<close> invocations.
\<close>

theorem with_retries_third_attempt:
  "(fn s0 = (Inl e1, s1) \<and> is_Exception e1 \<and> fn s1 = (Inl e2, s2) \<and> is_Exception e2 \<and>
    fn s2 = (Inr v, s3) \<longrightarrow>
      with_retries fn rnd 5 bd md s0 = (Inr v, s3, failure_trace rnd 5 bd md 0 2 @ [Invoke]) \<and>
      invocations (failure_trace rnd 5 bd md 0 2 @ [Invoke]) = 3) \<and>
   (0 < n \<and> (\<forall>k<n. fn (st k) = (Inl (e k), st (Suc k)) \<and> is_Exception (e k)) \<longrightarrow>
      with_retries fn rnd (int n) bd md (st 0) = (Inl (e (n - 1)), st n, failure_trace rnd n bd md 0 n) \<and>
      invocations (failure_trace rnd n bd md 0 n) = n)"
proof (intro conjI impI)
  assume h: "fn s0 = (Inl e1, s1) \<and> is_Exception e1 \<and> fn s1 = (Inl e2, s2) \<and> is_Exception e2 \<and>
    fn s2 = (Inr v, s3)"
  define st' where "st' = (\<lambda>k::nat. if k = 0 then s0 else if k = 1 then s1 else s2)"
  define e' where "e' = (\<lambda>k::nat. if k = 0 then e1 else e2)"
  have fails: "\<And>k. k < 2 \<Longrightarrow> fn (st' k) = (Inl (e' k), st' (Suc k)) \<and> is_Exception (e' k)"
  proof -
    fix k :: nat assume "k < 2"
    then consider "k = 0" | "k = 1" by linarith
    then show "fn (st' k) = (Inl (e' k), st' (Suc k)) \<and> is_Exception (e' k)"
      using h by cases (simp_all add: st'_def e'_def)
  qed
  have ok: "fn (st' 2) = (Inr v, s3)"
    using h by (simp add: st'_def)
  have "with_retries fn rnd (int 5) bd md (st' 0) =
        (Inr v, s3, failure_trace rnd 5 bd md 0 2 @ [Invoke])"
    using with_retries_fail_then_succeed[of 2 5 fn st' e' v s3 rnd bd md] fails ok by simp
  then show "with_retries fn rnd 5 bd md s0 = (Inr v, s3, failure_trace rnd 5 bd md 0 2 @ [Invoke])"
    by (simp add: st'_def)
  show "invocations (failure_trace rnd 5 bd md 0 2 @ [Invoke]) = 3"
    by (simp add: invocations_append invocations_failure_trace) (simp add: invocations_def)
next
  assume h: "0 < n \<and> (\<forall>k<n. fn (st k) = (Inl (e k), st (Suc k)) \<and> is_Exception (e k))"
  then show "with_retries fn rnd (int n) bd md (st 0) = (Inl (e (n - 1)), st n, failure_trace rnd n bd md 0 n)"
    by (intro with_retries_all_fail) simp_all
  show "invocations (failure_trace rnd n bd md 0 n) = n"
    by (rule invocations_failure_trace)
qed

theorem with_retries_third_attempt_witness:
  "with_retries flaky (\<lambda>i. 0) 5 0.5 5 0 =
     (Inr 20, 3, [Invoke, Warning 1 5, Sleep 0.35, Invoke, Warning 2 5, Sleep 0.7, Invoke]) \<and>
   invocations [Invoke, Warning 1 5, Sleep 0.35, Invoke, Warning 2 5, Sleep 0.7, Invoke] = 3 \<and>
   fst (with_retries always_not_found (\<lambda>i. 0) 5 0.5 5 0) = Inl (HttpError 404) \<and>
   invocations (snd (snd (with_retries always_not_found (\<lambda>i. 0) 5 0.5 5 0))) = 5"
proof -
  have fl: "flaky 0 = (Inl (HttpError 503), 1) \<and> is_Exception (HttpError 503) \<and>
            flaky 1 = (Inl (HttpError 503), 2) \<and> is_Exception (HttpError 503) \<and>
            flaky 2 = (Inr 20, 3)"
    by (simp add: flaky_def)
  have nf: "0 < (5::nat) \<and> (\<forall>k<5. always_not_found (id k) = (Inl ((\<lambda>_. HttpError 404) k), id (Suc k)) \<and>
              is_Exception ((\<lambda>_. HttpError 404) k))"
    by (simp add: always_not_found_def)
  have tr: "failure_trace (\<lambda>i. 0) 5 0.5 5 0 2 @ [Invoke] =
            [Invoke, Warning 1 5, Sleep 0.35, Invoke, Warning 2 5, Sleep 0.7, Invoke]"
    by (simp add: failure_trace_def failure_events_def backoff_delay_def upt_conv_Cons)
  note inst1 = with_retries_third_attempt[where fn = flaky and ?s0.0 = 0 and ?e1.0 = "HttpError 503"
      and ?s1.0 = 1 and ?e2.0 = "HttpError 503" and ?s2.0 = 2 and v = 20 and ?s3.0 = 3
      and rnd = "\<lambda>i. 0" and bd = "0.5" and md = 5]
  note inst2 = with_retries_third_attempt[where fn = always_not_found and n = 5 and st = id
      and e = "\<lambda>_. HttpError 404" and rnd = "\<lambda>i. 0" and bd = "0.5" and md = 5]
  from inst1 fl have a: "with_retries flaky (\<lambda>i. 0) 5 0.5 5 0 =
      (Inr 20, 3, failure_trace (\<lambda>i. 0) 5 0.5 5 0 2 @ [Invoke])"
    by blast
  from inst2 nf have b: "with_retries always_not_found (\<lambda>i. 0) (int 5) 0.5 5 (id 0) =
      (Inl (HttpError 404), id 5, failure_trace (\<lambda>i. 0) 5 0.5 5 0 5)"
    by blast
  show ?thesis
    using a b unfolding tr
    by (simp add: invocations_failure_trace) (simp add: invocations_def)
qed

text \<open>
  Claim C2, as stated, fails: the wrapper has one handler for every exception and knows
  no not-found case.  An operation that always answers 404, run with 5 attempts, is
  invoked 5 times and slept on 5 times before the error reaches the caller.
\<close>

theorem with_retries_not_found_counterexample:
  "fst (with_retries always_not_found (\<lambda>i. 0) 5 0.5 5 0) = Inl (HttpError 404) \<and>
   invocations (snd (snd (with_retries always_not_found (\<lambda>i. 0) 5 0.5 5 0))) = 5 \<and>
   sleeps (snd (snd (with_retries always_not_found (\<lambda>i. 0) 5 0.5 5 0))) = 5 \<and>
   snd (snd (with_retries always_not_found (\<lambda>i. 0) 5 0.5 5 0)) \<noteq> [Invoke]"
proof -
  have "with_retries always_not_found (\<lambda>i. 0) (int 5) 0.5 5 (id 0) =
      (Inl (HttpError 404), id 5, failure_trace (\<lambda>i. 0) 5 0.5 5 0 5)"
    by (rule with_retries_all_fail) (simp_all add: always_not_found_def)
  moreover have "failure_trace (\<lambda>i. 0) 5 0.5 5 0 5 \<noteq> [Invoke]"
    by (simp add: failure_trace_def failure_events_def upt_conv_Cons)
  ultimately show ?thesis
    by (simp add: invocations_failure_trace sleeps_failure_trace)
qed

text \<open>
  Claim C2, amended.  A not-found failure is handled like every other exception that
  \<open>except Exception\<close> catches: when the \<open>n > 0\<close> invocations all raise, the wrapper
  makes all \<open>n\<close> invocations, sleeps after each of them, and then raises the last
  exception; with more than one attempt the first failure is followed by a warning, a
  sleep and a second invocation.
\<close>

theorem with_retries_retries_every_exception:
  "0 < n \<and> (\<forall>k<n. fn (st k) = (Inl (e k), st (Suc k)) \<and> is_Exception (e k)) \<longrightarrow>
     with_retries fn rnd (int n) bd md (st 0) =
       (Inl (e (n - 1)), st n, failure_trace rnd n bd md 0 n) \<and>
     invocations (failure_trace rnd n bd md 0 n) = n \<and>
     sleeps (failure_trace rnd n bd md 0 n) = n \<and>
     (1 < n \<longrightarrow> take 4 (failure_trace rnd n bd md 0 n) =
        [Invoke, Warning 1 n, Sleep (backoff_delay bd md 0 (rnd 0)), Invoke])"
proof (intro impI conjI)
  assume h: "0 < n \<and> (\<forall>k<n. fn (st k) = (Inl (e k), st (Suc k)) \<and> is_Exception (e k))"
  then show "with_retries fn rnd (int n) bd md (st 0) =
      (Inl (e (n - 1)), st n, failure_trace rnd n bd md 0 n)"
    by (intro with_retries_all_fail) simp_all
  show "invocations (failure_trace rnd n bd md 0 n) = n"
    by (rule invocations_failure_trace)
  show "sleeps (failure_trace rnd n bd md 0 n) = n"
    by (rule sleeps_failure_trace)
  assume "1 < n"
  then obtain m where n: "n = Suc (Suc m)"
    by (metis One_nat_def Suc_lessE less_imp_Suc_add)
  show "take 4 (failure_trace rnd n bd md 0 n) =
      [Invoke, Warning 1 n, Sleep (backoff_delay bd md 0 (rnd 0)), Invoke]"
    unfolding n by (simp add: failure_trace_Suc failure_events_def)
qed

theorem with_retries_retries_every_exception_witness:
  "with_retries always_not_found (\<lambda>i. 0) 5 0.5 5 0 =
     (Inl (HttpError 404), 5,
      [Invoke, Warning 1 5, Sleep 0.35, Invoke, Warning 2 5, Sleep 0.7,
       Invoke, Warning 3 5, Sleep 1.4, Invoke, Warning 4 5, Sleep 2.8,
       Invoke, Warning 5 5, Sleep 3.5])"
proof -
  have nf: "0 < (5::nat) \<and> (\<forall>k<5. always_not_found (id k) =
              (Inl ((\<lambda>_. HttpError 404) k), id (Suc k)) \<and> is_Exception ((\<lambda>_. HttpError 404) k))"
    by (simp add: always_not_found_def)
  have tr: "failure_trace (\<lambda>i. 0) 5 0.5 5 0 5 =
      [Invoke, Warning 1 5, Sleep 0.35, Invoke, Warning 2 5, Sleep 0.7,
       Invoke, Warning 3 5, Sleep 1.4, Invoke, Warning 4 5, Sleep 2.8,
       Invoke, Warning 5 5, Sleep 3.5]"
    by (simp add: failure_trace_def failure_events_def backoff_delay_def upt_conv_Cons)
  from with_retries_retries_every_exception[where fn = always_not_found and n = 5 and st = id
      and e = "\<lambda>_. HttpError 404" and rnd = "\<lambda>i. 0" and bd = "0.5" and md = 5] nf
  have "with_retries always_not_found (\<lambda>i. 0) (int 5) 0.5 5 (id 0) =
      (Inl (HttpError 404), id 5, failure_trace (\<lambda>i. 0) 5 0.5 5 0 5)"
    by blast
  then show ?thesis
    unfolding tr by simp
qed

section \<open>Properties of the raw-to-table normalizer\<close>

lemma length_le_max_row_len: "v \<in> set vs \<Longrightarrow> length v \<le> max_row_len vs"
  by (simp add: max_row_len_def)

lemma max_row_len_attained: "vs \<noteq> [] \<Longrightarrow> \<exists>v \<in> set vs. length v = max_row_len vs"
proof -
  assume "vs \<noteq> []"
  then have "Max (set (map length vs)) \<in> set (map length vs)"
    by (intro Max_in) simp_all
  then show ?thesis
    by (auto simp: max_row_len_def)
qed

lemma length_pad: "length v \<le> m \<Longrightarrow> length (pad m v) = m"
  by (simp add: pad_def)


lemma has_headers_iff: "has_headers hs \<longleftrightarrow> (\<exists>h \<in> set hs. h \<noteq> '''') \<and> distinct hs"
  by (auto simp: has_headers_def card_distinct distinct_card)

lemma values_to_dataframe_rows:
  assumes "vs \<noteq> []"
  shows "set (rows (values_to_dataframe vs)) \<subseteq> (\<lambda>v. map S (pad (max_row_len vs) v)) ` set vs"
proof -
  have "set (tl (map (pad (max_row_len vs)) vs)) \<subseteq> set (map (pad (max_row_len vs)) vs)"
    by (cases vs) auto
  then show ?thesis
    using assms by (auto simp: values_to_dataframe_def Let_def)
qed

lemma values_to_dataframe_columns:
  assumes "vs \<noteq> []"
  shows "length (columns (values_to_dataframe vs)) = max_row_len vs"
proof -
  have "hd vs \<in> set vs"
    using assms by simp
  then have "length (pad (max_row_len vs) (hd vs)) = max_row_len vs"
    by (intro length_pad length_le_max_row_len)
  then show ?thesis
    using assms by (simp add: values_to_dataframe_def Let_def hd_map)
qed

lemma values_to_dataframe_exact:
  assumes "vs \<noteq> []"
  shows "(values_to_dataframe vs :: 'n dataframe) =
           (if has_headers (pad (max_row_len vs) (hd vs))
            then \<lparr>columns = map LStr (pad (max_row_len vs) (hd vs)),
                  rows = map (\<lambda>v. map S (pad (max_row_len vs) v)) (tl vs)\<rparr>
            else \<lparr>columns = map LInt [0..<max_row_len vs],
                  rows = map (\<lambda>v. map S (pad (max_row_len vs) v)) vs\<rparr>)"
  using assms by (simp add: values_to_dataframe_def Let_def hd_map map_tl o_def)

text \<open>
  Claim C5.  For rows of any lengths (at least one row), the rows of the table are
  exactly the input rows, in their order and each with empty strings added on its
  right up to the length of the longest input row: all of them when the table has no
  header, and all after the first when the first row, padded in the same way, is the
  header; the labels are then the cells of the padded first row, and the positions
  from 0 otherwise.  So no input row is dropped, every row of the table has the length
  of the longest input row, and the table has as many columns; that length is reached
  by an input row and exceeded by none.  With no row at all the result is the empty
  table, with no row and no column; the function has no failing branch.
\<close>

theorem values_to_dataframe_rectangular:
  "(vs \<noteq> [] \<longrightarrow>
      rows (values_to_dataframe vs :: 'n dataframe) =
        map (\<lambda>v. map S (v @ replicate (max_row_len vs - length v) ''''))
          (if has_headers (hd vs @ replicate (max_row_len vs - length (hd vs)) '''')
           then tl vs else vs) \<and>
      columns (values_to_dataframe vs :: 'n dataframe) =
        (if has_headers (hd vs @ replicate (max_row_len vs - length (hd vs)) '''')
         then map LStr (hd vs @ replicate (max_row_len vs - length (hd vs)) '''')
         else map LInt [0..<max_row_len vs]) \<and>
      (\<forall>r \<in> set (rows (values_to_dataframe vs :: 'n dataframe)).
         length r = max_row_len vs \<and>
         (\<exists>v \<in> set vs. r = map S (v @ replicate (max_row_len vs - length v) ''''))) \<and>
      length (columns (values_to_dataframe vs :: 'n dataframe)) = max_row_len vs \<and>
      (\<forall>v \<in> set vs. length v \<le> max_row_len vs) \<and>
      (\<exists>v \<in> set vs. length v = max_row_len vs)) \<and>
   columns (values_to_dataframe [] :: 'n dataframe) = [] \<and> rows (values_to_dataframe [] :: 'n dataframe) = []"
proof (intro conjI impI ballI)
  assume vs: "vs \<noteq> []"
  show "rows (values_to_dataframe vs :: 'n dataframe) =
        map (\<lambda>v. map S (v @ replicate (max_row_len vs - length v) ''''))
          (if has_headers (hd vs @ replicate (max_row_len vs - length (hd vs)) '''')
           then tl vs else vs)"
    by (simp add: values_to_dataframe_exact[OF vs]) (simp add: pad_def)
  show "columns (values_to_dataframe vs :: 'n dataframe) =
        (if has_headers (hd vs @ replicate (max_row_len vs - length (hd vs)) '''')
         then map LStr (hd vs @ replicate (max_row_len vs - length (hd vs)) '''')
         else map LInt [0..<max_row_len vs])"
    by (simp add: values_to_dataframe_exact[OF vs]) (simp add: pad_def)
next
  fix r
  assume vs: "vs \<noteq> []" and r: "r \<in> set (rows (values_to_dataframe vs :: 'n dataframe))"
  from values_to_dataframe_rows[OF vs] r obtain v
    where v: "v \<in> set vs" and rv: "r = map S (pad (max_row_len vs) v)"
    by blast
  from v have "length (pad (max_row_len vs) v) = max_row_len vs"
    by (intro length_pad length_le_max_row_len)
  with rv show "length r = max_row_len vs"
    by simp
  from v rv show "\<exists>v \<in> set vs. r = map S (v @ replicate (max_row_len vs - length v) '''')"
    by (auto simp: pad_def)
next
  assume "vs \<noteq> []"
  then show "length (columns (values_to_dataframe vs :: 'n dataframe)) = max_row_len vs"
    by (rule values_to_dataframe_columns)
next
  fix v assume "v \<in> set vs"
  then show "length v \<le> max_row_len vs"
    by (rule length_le_max_row_len)
next
  assume "vs \<noteq> []"
  then show "\<exists>v \<in> set vs. length v = max_row_len vs"
    by (rule max_row_len_attained)
next
  show "columns (values_to_dataframe [] :: 'n dataframe) = []"
    by (simp add: values_to_dataframe_def empty_frame_def)
  show "rows (values_to_dataframe [] :: 'n dataframe) = []"
    by (simp add: values_to_dataframe_def empty_frame_def)
qed

lemma max_row_len_ragged: "max_row_len ragged_rows = 3"
  by (simp add: max_row_len_def ragged_rows_def)

theorem values_to_dataframe_rectangular_witness:
  "ragged_rows \<noteq> [] \<and>
   has_headers (hd ragged_rows @ replicate (max_row_len ragged_rows - length (hd ragged_rows)) '''') \<and>
   (values_to_dataframe ragged_rows :: int dataframe) =
     \<lparr>columns = [LStr ''Name'', LStr ''Score'', LStr ''''],
      rows = [[S ''Ann'', S ''95'', S ''7''], [S ''Bo'', S '''', S '''']]\<rparr> \<and>
   \<not> has_headers (hd short_header_rows @
          replicate (max_row_len short_header_rows - length (hd short_header_rows)) '''') \<and>
   rows (values_to_dataframe short_header_rows :: int dataframe) =
     [[S ''A'', S '''', S ''''], [S ''1'', S ''2'', S ''3'']] \<and>
   length (columns (values_to_dataframe ragged_rows :: int dataframe)) = 3 \<and>
   max_row_len ragged_rows = 3"
proof -
  have ne: "ragged_rows \<noteq> []" "short_header_rows \<noteq> []"
    by (simp_all add: ragged_rows_def short_header_rows_def)
  have m: "max_row_len short_header_rows = 3"
    by (simp add: max_row_len_def short_header_rows_def)
  have h1: "has_headers (hd ragged_rows @
      replicate (max_row_len ragged_rows - length (hd ragged_rows)) '''')"
    by (simp add: max_row_len_ragged has_headers_iff) (simp add: ragged_rows_def)
  have h2: "\<not> has_headers (hd short_header_rows @
      replicate (max_row_len short_header_rows - length (hd short_header_rows)) '''')"
    by (simp add: m has_headers_iff) (simp add: short_header_rows_def eval_nat_numeral)
  note inst1 = values_to_dataframe_rectangular[where ?'n = int and vs = ragged_rows]
  note inst2 = values_to_dataframe_rectangular[where ?'n = int and vs = short_header_rows]
  from inst1 ne(1)
  have r1: "rows (values_to_dataframe ragged_rows :: int dataframe) =
        map (\<lambda>v. map S (v @ replicate (max_row_len ragged_rows - length v) ''''))
          (if has_headers (hd ragged_rows @
                replicate (max_row_len ragged_rows - length (hd ragged_rows)) '''')
           then tl ragged_rows else ragged_rows)"
    and c1: "columns (values_to_dataframe ragged_rows :: int dataframe) =
        (if has_headers (hd ragged_rows @
              replicate (max_row_len ragged_rows - length (hd ragged_rows)) '''')
         then map LStr (hd ragged_rows @
                replicate (max_row_len ragged_rows - length (hd ragged_rows)) '''')
         else map LInt [0..<max_row_len ragged_rows])"
    and l1: "length (columns (values_to_dataframe ragged_rows :: int dataframe)) =
        max_row_len ragged_rows"
    by blast+
  from inst2 ne(2)
  have r2: "rows (values_to_dataframe short_header_rows :: int dataframe) =
        map (\<lambda>v. map S (v @ replicate (max_row_len short_header_rows - length v) ''''))
          (if has_headers (hd short_header_rows @
                replicate (max_row_len short_header_rows - length (hd short_header_rows)) '''')
           then tl short_header_rows else short_header_rows)"
    by blast
  from r1 h1 have rows1: "rows (values_to_dataframe ragged_rows :: int dataframe) =
      [[S ''Ann'', S ''95'', S ''7''], [S ''Bo'', S '''', S '''']]"
    by (simp add: max_row_len_ragged) (simp add: ragged_rows_def eval_nat_numeral)
  from c1 h1 have cols1: "columns (values_to_dataframe ragged_rows :: int dataframe) =
      [LStr ''Name'', LStr ''Score'', LStr '''']"
    by (simp add: max_row_len_ragged) (simp add: ragged_rows_def)
  from r2 h2 have rows2: "rows (values_to_dataframe short_header_rows :: int dataframe) =
      [[S ''A'', S '''', S ''''], [S ''1'', S ''2'', S ''3'']]"
    by (simp add: m) (simp add: short_header_rows_def eval_nat_numeral)
  have df: "(values_to_dataframe ragged_rows :: int dataframe) =
     \<lparr>columns = [LStr ''Name'', LStr ''Score'', LStr ''''],
      rows = [[S ''Ann'', S ''95'', S ''7''], [S ''Bo'', S '''', S '''']]\<rparr>"
    using rows1 cols1 by (cases "values_to_dataframe ragged_rows :: int dataframe") simp
  from ne h1 h2 df rows2 l1 show ?thesis
    by (simp add: max_row_len_ragged)
qed




section \<open>Properties of the column normalizers\<close>

lemma length_clean_column: "length (clean_column p cs) = length cs"
  by (simp add: clean_column_def Let_def)

lemma columns_set_column_at: "columns (set_column_at df j cs) = columns df"
  by (simp add: set_column_at_def)

lemma rectangular_set_column_at:
  "rectangular df \<Longrightarrow> rectangular (set_column_at df j cs)"
  by (auto simp: rectangular_def set_column_at_def dest!: set_zip_leftD)

lemma rows_set_column_at:
  "length cs = length (rows df) \<Longrightarrow> length (rows (set_column_at df j cs)) = length (rows df)"
  by (simp add: set_column_at_def)

lemma column_at_set_column_at:
  assumes "rectangular df" "length cs = length (rows df)" "j < length (columns df)"
  shows "column_at (set_column_at df j cs) k = (if k = j then cs else column_at df k)"
proof -
  have len: "\<And>i. i < length (rows df) \<Longrightarrow> j < length (rows df ! i)"
    using assms(1,3) by (simp add: rectangular_def)
  show ?thesis
    using assms(2) len
    by (auto simp: column_at_def set_column_at_def intro!: nth_equalityI)
qed

lemma columns_clean_at: "columns (clean_at p j df) = columns df"
  by (simp add: clean_at_def Let_def columns_set_column_at)

lemma rectangular_clean_at: "rectangular df \<Longrightarrow> rectangular (clean_at p j df)"
  by (simp add: clean_at_def Let_def rectangular_set_column_at)

lemma length_rows_clean_at: "length (rows (clean_at p j df)) = length (rows df)"
  by (simp add: clean_at_def Let_def rows_set_column_at length_clean_column column_at_def)


lemma length_filter_eq_iff: "length (filter P xs) = length xs \<longleftrightarrow> (\<forall>x \<in> set xs. P x)"
proof
  assume "length (filter P xs) = length xs"
  then have "filter P xs = xs"
    by (metis length_filter_le filter_eq_ConsD impossible_Cons length_filter_less linorder_not_le filter_True order_less_irrefl)
  then show "\<forall>x \<in> set xs. P x"
    by (metis filter_id_conv)
next
  assume "\<forall>x \<in> set xs. P x"
  then show "length (filter P xs) = length xs"
    by simp
qed

lemma length_filter_less_iff: "length (filter P xs) < length xs \<longleftrightarrow> (\<exists>x \<in> set xs. \<not> P x)"
proof -
  have "length (filter P xs) \<le> length xs"
    by simp
  then have "length (filter P xs) < length xs \<longleftrightarrow> length (filter P xs) \<noteq> length xs"
    by linarith
  then show ?thesis
    by (simp add: length_filter_eq_iff)
qed

lemma clean_column_all_fail:
  assumes "\<forall>c \<in> set cs. numeric_cell p c = None"
  shows "clean_column p cs = cs"
  using assms by (simp add: clean_column_def Let_def length_filter_less_iff)

lemma clean_column_some_parse:
  assumes "\<exists>c \<in> set cs. numeric_cell p c \<noteq> None"
  shows "clean_column p cs = map (of_parsed \<circ> numeric_cell p) cs"
proof -
  from assms obtain c where c: "c \<in> set cs" "numeric_cell p c \<noteq> None"
    by blast
  then have "c \<noteq> NA"
    by auto
  with c have notna: "length (filter (\<lambda>c. c = NA) cs) \<noteq> length cs"
    by (auto simp: length_filter_eq_iff)
  from c have "cs \<noteq> []"
    by auto
  moreover from assms have "length (filter (\<lambda>x. x = None) (map (numeric_cell p) cs)) < length cs"
    using length_filter_less_iff[of "\<lambda>x. x = None" "map (numeric_cell p) cs"] by auto
  ultimately show ?thesis
    using notna by (simp add: clean_column_def Let_def)
qed

lemma column_at_clean_at:
  assumes "rectangular df" "j < length (columns df)"
  shows "column_at (clean_at p j df) k =
         (if k = j \<and> \<not> skipped_label (columns df ! j) \<and>
             length (positions (columns df) (columns df ! j)) = 1
          then clean_column p (column_at df j) else column_at df k)"
proof -
  have len: "length (clean_column p (column_at df j)) = length (rows df)"
    by (simp add: length_clean_column column_at_def)
  show ?thesis
    using column_at_set_column_at[OF assms(1) len assms(2), of k]
    by (auto simp: clean_at_def Let_def)
qed

lemma fold_clean_at:
  assumes "rectangular df" "n \<le> length (columns df)"
  shows "columns (fold (clean_at p) [0..<n] df) = columns df \<and>
         rectangular (fold (clean_at p) [0..<n] df) \<and>
         length (rows (fold (clean_at p) [0..<n] df)) = length (rows df) \<and>
         (\<forall>k. column_at (fold (clean_at p) [0..<n] df) k =
            (if k < n \<and> \<not> skipped_label (columns df ! k) \<and>
                length (positions (columns df) (columns df ! k)) = 1
             then clean_column p (column_at df k) else column_at df k))"
  using assms(2)
proof (induction n)
  case 0
  then show ?case using assms(1) by simp
next
  case (Suc n)
  let ?d = "fold (clean_at p) [0..<n] df"
  from Suc have ih: "columns ?d = columns df" "rectangular ?d"
    "length (rows ?d) = length (rows df)"
    "\<And>k. column_at ?d k =
            (if k < n \<and> \<not> skipped_label (columns df ! k) \<and>
                length (positions (columns df) (columns df ! k)) = 1
             then clean_column p (column_at df k) else column_at df k)"
    by simp_all
  have n: "n < length (columns ?d)"
    using Suc.prems ih(1) by simp
  have step: "fold (clean_at p) [0..<Suc n] df = clean_at p n ?d"
    by simp
  show ?case
    unfolding step
    using column_at_clean_at[OF ih(2) n, of p] ih
    by (auto simp: columns_clean_at rectangular_clean_at length_rows_clean_at less_Suc_eq)
qed

lemma rectangular_dropna_all: "rectangular df \<Longrightarrow> rectangular (dropna_all df)"
  by (simp add: rectangular_def dropna_all_def)

lemma rectangular_select_columns: "rectangular (select_columns df js)"
  by (simp add: rectangular_def select_columns_def)

lemma rectangular_drop_unnamed: "rectangular df \<Longrightarrow> rectangular (drop_unnamed df)"
  by (simp add: drop_unnamed_def rectangular_select_columns)

lemma clean_dataframe_columns:
  assumes "rectangular df" "\<not> is_empty df"
  shows "columns (clean_dataframe p df) = columns (drop_unnamed (dropna_all df)) \<and>
         (\<forall>k. column_at (clean_dataframe p df) k =
            (if k < length (columns (drop_unnamed (dropna_all df))) \<and>
                \<not> skipped_label (columns (drop_unnamed (dropna_all df)) ! k) \<and>
                length (positions (columns (drop_unnamed (dropna_all df)))
                          (columns (drop_unnamed (dropna_all df)) ! k)) = 1
             then clean_column p (column_at (drop_unnamed (dropna_all df)) k)
             else column_at (drop_unnamed (dropna_all df)) k))"
proof -
  have r: "rectangular (drop_unnamed (dropna_all df))"
    using assms(1) by (intro rectangular_drop_unnamed rectangular_dropna_all)
  show ?thesis
    using fold_clean_at[OF r order_refl, of p] assms(2)
    by (simp add: clean_dataframe_def Let_def)
qed

lemma rectangular_build_frame:
  assumes "build_frame headers rws = Inr df"
  shows "rectangular df"
proof (cases "rws = []")
  case True
  with assms show ?thesis
    by (auto simp: build_frame_def rectangular_def)
next
  case False
  with assms have m: "max_row_len rws = length headers"
    and df: "df = \<lparr>columns = map LStr headers,
                    rows = map (\<lambda>r. map S r @ replicate (max_row_len rws - length r) NA) rws\<rparr>"
    by (auto simp: build_frame_def Let_def split: if_splits)
  have "\<And>r. r \<in> set rws \<Longrightarrow> length r \<le> max_row_len rws"
    by (simp add: max_row_len_def)
  then show ?thesis
    unfolding df rectangular_def using m by auto
qed

lemma build_frame_score: "build_frame (hd score_rows) (tl score_rows) = Inr score_frame"
  by (simp add: build_frame_def score_rows_def score_frame_def max_row_len_def Let_def)

lemma is_space_iff:
  "is_space c \<longleftrightarrow> (9 \<le> (of_char c :: nat) \<and> (of_char c :: nat) \<le> 13) \<or>
                   (28 \<le> (of_char c :: nat) \<and> (of_char c :: nat) \<le> 32)"
  by (simp add: is_space_def Let_def)

lemma clean_score_frame:
  assumes "p ''95'' = Some n" "p ''Ann'' = None" "p ''Bo'' = None"
  shows "clean_dataframe p score_frame =
           \<lparr>columns = [LStr ''Name'', LStr ''Score''], rows = [[S ''Ann'', N n], [S ''Bo'', NA]]\<rparr>"
proof -
  have e: "\<not> is_empty (score_frame :: 'a dataframe)"
    by (simp add: is_empty_def score_frame_def)
  have d1: "dropna_all (score_frame :: 'a dataframe) = score_frame"
    by (simp add: dropna_all_def score_frame_def)
  have d2: "drop_unnamed (score_frame :: 'a dataframe) = score_frame"
    by (simp add: drop_unnamed_def score_frame_def select_columns_def upt_conv_Cons)
  have l0: "\<not> skipped_label (LStr ''Name'')" "\<not> skipped_label (LStr ''Score'')"
    by (simp_all add: strip_def is_space_iff)
  have c0: "clean_column p [S ''Ann'', S ''Bo''] = [S ''Ann'', S ''Bo'']"
    using assms by (simp add: clean_column_def strip_symbols_def Let_def)
  have c1: "clean_column p [S ''95'', S ''''] = [N n, NA]"
    using assms by (simp add: clean_column_def strip_symbols_def Let_def of_parsed_def)
  show ?thesis
    unfolding clean_dataframe_def
    using e
    apply (simp add: d1 d2 Let_def)
    apply (simp add: score_frame_def upt_conv_Cons clean_at_def positions_def strip_def is_space_iff Let_def
        column_at_def set_column_at_def c0 c1)
    done
qed

lemma positions_bound: "positions cols l = [j] \<Longrightarrow> j < length cols"
proof -
  assume "positions cols l = [j]"
  then have "j \<in> set (filter (\<lambda>j. cols ! j = l) [0..<length cols])"
    by (simp add: positions_def)
  then show ?thesis
    by simp
qed

lemma apply_parse_int_unique:
  assumes "rectangular df" "positions (columns df) (LStr col) = [j]"
  shows "\<exists>df'. apply_parse_int df col = Inr df' \<and> columns df' = columns df \<and>
           column_at df' j = map (of_parsed \<circ> parse_int_safe) (column_at df j) \<and>
           (\<forall>k. k \<noteq> j \<longrightarrow> column_at df' k = column_at df k)"
proof -
  have j: "j < length (columns df)"
    using assms(2) by (rule positions_bound)
  have len: "length (map (of_parsed \<circ> parse_int_safe) (column_at df j)) = length (rows df)"
    by (simp add: column_at_def)
  show ?thesis
    using assms(2) column_at_set_column_at[OF assms(1) len j]
    by (simp add: apply_parse_int_def columns_set_column_at)
qed

text \<open>
  Claim C7, as stated, fails on \<open>load_patient_count\<close>: the month columns are assigned
  the parsed cells without any test.  The column \<open>Jan\<close> with the one cell \<open>n/a\<close>, which
  is no integer, comes out as one missing cell.
\<close>

theorem load_patient_count_all_missing_counterexample:
  "(values_to_dataframe [[''Jan''], [''n/a'']] :: int dataframe) =
     \<lparr>columns = [LStr ''Jan''], rows = [[S ''n/a'']]\<rparr> \<and>
   parse_int_safe (S ''n/a'') = None \<and>
   patient_count_frame [[''Jan''], [''n/a'']] = Inr \<lparr>columns = [LStr ''jan''], rows = [[NA]]\<rparr>"
  by code_simp

text \<open>
  Claim C7, amended.  In \<open>_clean_dataframe\<close>, on a frame with rows and columns: a
  column left after the dropping of empty rows and unnamed columns in which every
  cell fails to parse keeps its cells as they are; a column whose cells change has a
  cell that parses, and its cells are then the coerced ones.  \<open>load_patient_count\<close>
  has no such test: a month column that is present once is replaced by the parsed
  cells whatever the parse gives, so a column of non-numeric strings becomes a column
  of missing cells.
\<close>

theorem clean_dataframe_converts_only_parsed:
  "(rectangular df \<and> \<not> is_empty df \<longrightarrow>
      ((\<forall>c \<in> set (column_at (drop_unnamed (dropna_all df)) k). numeric_cell p c = None) \<longrightarrow>
         column_at (clean_dataframe p df) k = column_at (drop_unnamed (dropna_all df)) k) \<and>
      (column_at (clean_dataframe p df) k \<noteq> column_at (drop_unnamed (dropna_all df)) k \<longrightarrow>
         (\<exists>c \<in> set (column_at (drop_unnamed (dropna_all df)) k). numeric_cell p c \<noteq> None) \<and>
         column_at (clean_dataframe p df) k =
           map (of_parsed \<circ> numeric_cell p) (column_at (drop_unnamed (dropna_all df)) k))) \<and>
   (rectangular mdf \<and> positions (columns mdf) (LStr col) = [j] \<longrightarrow>
      (\<exists>df'. apply_parse_int mdf col = Inr df' \<and> columns df' = columns mdf \<and>
         column_at df' j = map (of_parsed \<circ> parse_int_safe) (column_at mdf j)))"
proof (intro conjI impI)
  assume h: "rectangular df \<and> \<not> is_empty df"
  then have cols: "column_at (clean_dataframe p df) k =
            (if k < length (columns (drop_unnamed (dropna_all df))) \<and>
                \<not> skipped_label (columns (drop_unnamed (dropna_all df)) ! k) \<and>
                length (positions (columns (drop_unnamed (dropna_all df)))
                          (columns (drop_unnamed (dropna_all df)) ! k)) = 1
             then clean_column p (column_at (drop_unnamed (dropna_all df)) k)
             else column_at (drop_unnamed (dropna_all df)) k)"
    using clean_dataframe_columns[of df p] by blast
  {
    assume "\<forall>c \<in> set (column_at (drop_unnamed (dropna_all df)) k). numeric_cell p c = None"
    then show "column_at (clean_dataframe p df) k = column_at (drop_unnamed (dropna_all df)) k"
      using cols by (simp add: clean_column_all_fail)
  }
  assume changed: "column_at (clean_dataframe p df) k \<noteq> column_at (drop_unnamed (dropna_all df)) k"
  then have eq: "column_at (clean_dataframe p df) k =
      clean_column p (column_at (drop_unnamed (dropna_all df)) k)"
    using cols by (auto split: if_splits)
  with changed show ex: "\<exists>c \<in> set (column_at (drop_unnamed (dropna_all df)) k). numeric_cell p c \<noteq> None"
    using clean_column_all_fail[of "column_at (drop_unnamed (dropna_all df)) k" p] by metis
  then show "column_at (clean_dataframe p df) k =
           map (of_parsed \<circ> numeric_cell p) (column_at (drop_unnamed (dropna_all df)) k)"
    using eq by (simp add: clean_column_some_parse)
next
  assume "rectangular mdf \<and> positions (columns mdf) (LStr col) = [j]"
  then show "\<exists>df'. apply_parse_int mdf col = Inr df' \<and> columns df' = columns mdf \<and>
         column_at df' j = map (of_parsed \<circ> parse_int_safe) (column_at mdf j)"
    using apply_parse_int_unique[of mdf col j] by blast
qed

lemma score_frame_prepared:
  "rectangular (score_frame :: int dataframe) \<and> \<not> is_empty (score_frame :: int dataframe) \<and>
   drop_unnamed (dropna_all (score_frame :: int dataframe)) = score_frame"
  by code_simp

lemma january_frame_facts:
  "rectangular january_frame \<and> positions (columns january_frame) (LStr ''jan'') = [0] \<and>
   map (of_parsed \<circ> parse_int_safe) (column_at january_frame 0) = [NA, NA]"
  by code_simp

theorem clean_dataframe_converts_only_parsed_witness:
  "rectangular (score_frame :: int dataframe) \<and> \<not> is_empty (score_frame :: int dataframe) \<and>
   column_at (score_frame :: int dataframe) 0 = [S ''Ann'', S ''Bo''] \<and>
   numeric_cell py_int (S ''Ann'') = None \<and> numeric_cell py_int (S ''Bo'') = None \<and>
   column_at (clean_dataframe py_int score_frame) 0 = [S ''Ann'', S ''Bo''] \<and>
   rectangular january_frame \<and> positions (columns january_frame) (LStr ''jan'') = [0] \<and>
   (\<exists>df'. apply_parse_int january_frame ''jan'' = Inr df' \<and> column_at df' 0 = [NA, NA])"
proof -
  have col: "column_at (score_frame :: int dataframe) 0 = [S ''Ann'', S ''Bo'']"
    by code_simp
  have fail: "numeric_cell py_int (S ''Ann'') = None" "numeric_cell py_int (S ''Bo'') = None"
    by code_simp+
  have all: "\<forall>c \<in> set (column_at (drop_unnamed (dropna_all (score_frame :: int dataframe))) 0).
               numeric_cell py_int c = None"
    using score_frame_prepared col fail by simp
  note inst = clean_dataframe_converts_only_parsed[where df = "score_frame :: int dataframe"
      and k = 0 and p = py_int and mdf = january_frame and col = "''jan''" and j = 0]
  from inst score_frame_prepared all
  have a: "column_at (clean_dataframe py_int score_frame) 0 =
           column_at (drop_unnamed (dropna_all (score_frame :: int dataframe))) 0"
    by blast
  from inst january_frame_facts
  have b: "\<exists>df'. apply_parse_int january_frame ''jan'' = Inr df' \<and>
             columns df' = columns january_frame \<and>
             column_at df' 0 = map (of_parsed \<circ> parse_int_safe) (column_at january_frame 0)"
    by blast
  from a b show ?thesis
    using score_frame_prepared january_frame_facts col fail by auto
qed

text \<open>
  Claim C6, as stated, fails on the ingest path: \<open>_parse_int_safe\<close> hands the cell to
  \<open>int\<close> as it is and strips nothing.  The cell \<open>1,000\<close> of the month column \<open>Jan\<close>
  becomes missing, although it parses to 1000 once the comma is stripped.
\<close>

theorem parse_int_safe_strips_nothing_counterexample:
  "py_int (strip_symbols ''1,000'') = Some 1000 \<and>
   parse_int_safe (S ''1,000'') = None \<and>
   patient_count_frame [[''Jan''], [''1,000'']] = Inr \<lparr>columns = [LStr ''jan''], rows = [[NA]]\<rparr>"
  by code_simp

text \<open>
  Claim C6, amended.  In \<open>_clean_dataframe\<close>, for a column (left after the dropping of
  empty rows and unnamed columns) whose label is not empty and stands on that column
  only, and in which at least one cell parses: every cell is replaced by the parse of
  its text with the characters \<open>$\<close>, \<open>%\<close> and \<open>,\<close> stripped, and a cell whose parse
  fails becomes missing (not zero; the function raises nothing).  On the ingest path
  \<open>_parse_int_safe\<close> parses the text of the cell as it is, without stripping, and a
  text \<open>int\<close> refuses becomes missing.  With a parser that reads \<open>95\<close> as a number and
  refuses \<open>Ann\<close> and \<open>Bo\<close>, the frame built from
  \<open>[["Name","Score"],["Ann","95"],["Bo",""]]\<close> is cleaned to the Score column
  \<open>[95, missing]\<close>.
\<close>

theorem numeric_coercion_cells:
  "(rectangular df \<and> \<not> is_empty df \<and> k < length (columns (drop_unnamed (dropna_all df))) \<and>
    \<not> skipped_label (columns (drop_unnamed (dropna_all df)) ! k) \<and>
    length (positions (columns (drop_unnamed (dropna_all df)))
              (columns (drop_unnamed (dropna_all df)) ! k)) = 1 \<and>
    (\<exists>c \<in> set (column_at (drop_unnamed (dropna_all df)) k). numeric_cell p c \<noteq> None) \<longrightarrow>
      column_at (clean_dataframe p df) k =
        map (of_parsed \<circ> numeric_cell p) (column_at (drop_unnamed (dropna_all df)) k) \<and>
      (\<forall>i < length (column_at (drop_unnamed (dropna_all df)) k).
         numeric_cell p (column_at (drop_unnamed (dropna_all df)) k ! i) = None \<longrightarrow>
         column_at (clean_dataframe p df) k ! i = NA)) \<and>
   numeric_cell p (S s) =
     (if strip_symbols s = ''nan'' \<or> strip_symbols s = '''' \<or> strip_symbols s = ''None''
      then None else p (strip_symbols s)) \<and>
   strip_symbols s = filter (\<lambda>c. c \<notin> {CHR ''$'', CHR ''%'', CHR '',''}) s \<and>
   parse_int_safe (S x) = py_int x \<and>
   (py_int x = None \<longrightarrow> of_parsed (parse_int_safe (S x)) = NA) \<and>
   (p ''95'' = Some n \<and> p ''Ann'' = None \<and> p ''Bo'' = None \<longrightarrow>
      build_frame (hd score_rows) (tl score_rows) = Inr score_frame \<and>
      clean_dataframe p score_frame =
        \<lparr>columns = [LStr ''Name'', LStr ''Score''], rows = [[S ''Ann'', N n], [S ''Bo'', NA]]\<rparr>)"
proof (intro conjI impI allI)
  assume h: "rectangular df \<and> \<not> is_empty df \<and> k < length (columns (drop_unnamed (dropna_all df))) \<and>
    \<not> skipped_label (columns (drop_unnamed (dropna_all df)) ! k) \<and>
    length (positions (columns (drop_unnamed (dropna_all df)))
              (columns (drop_unnamed (dropna_all df)) ! k)) = 1 \<and>
    (\<exists>c \<in> set (column_at (drop_unnamed (dropna_all df)) k). numeric_cell p c \<noteq> None)"
  then have "column_at (clean_dataframe p df) k =
      clean_column p (column_at (drop_unnamed (dropna_all df)) k)"
    using clean_dataframe_columns[of df p] by simp
  with h show eq: "column_at (clean_dataframe p df) k =
        map (of_parsed \<circ> numeric_cell p) (column_at (drop_unnamed (dropna_all df)) k)"
    by (simp add: clean_column_some_parse)
  fix i
  assume "i < length (column_at (drop_unnamed (dropna_all df)) k)"
    and "numeric_cell p (column_at (drop_unnamed (dropna_all df)) k ! i) = None"
  then show "column_at (clean_dataframe p df) k ! i = NA"
    unfolding eq by (simp add: of_parsed_def)
next
  show "numeric_cell p (S s) =
     (if strip_symbols s = ''nan'' \<or> strip_symbols s = '''' \<or> strip_symbols s = ''None''
      then None else p (strip_symbols s))"
    by (simp add: Let_def)
  show "strip_symbols s = filter (\<lambda>c. c \<notin> {CHR ''$'', CHR ''%'', CHR '',''}) s"
    unfolding strip_symbols_def by (rule filter_cong) auto
  show "parse_int_safe (S x) = py_int x"
    by simp
next
  assume "py_int x = None"
  then show "of_parsed (parse_int_safe (S x)) = NA"
    by (simp add: of_parsed_def)
next
  show "build_frame (hd score_rows) (tl score_rows) = Inr score_frame"
    by (rule build_frame_score)
next
  assume "p ''95'' = Some n \<and> p ''Ann'' = None \<and> p ''Bo'' = None"
  then show "clean_dataframe p score_frame =
        \<lparr>columns = [LStr ''Name'', LStr ''Score''], rows = [[S ''Ann'', N n], [S ''Bo'', NA]]\<rparr>"
    by (intro clean_score_frame) simp_all
qed

theorem numeric_coercion_cells_witness:
  "py_int ''95'' = Some 95 \<and> py_int ''Ann'' = None \<and> py_int ''Bo'' = None \<and>
   py_int ''1,000'' = None \<and>
   of_parsed (parse_int_safe (S ''1,000'')) = NA \<and>
   clean_dataframe py_int score_frame =
     \<lparr>columns = [LStr ''Name'', LStr ''Score''], rows = [[S ''Ann'', N 95], [S ''Bo'', NA]]\<rparr> \<and>
   column_at (clean_dataframe py_int score_frame) 1 = [N 95, NA]"
proof -
  have p: "py_int ''95'' = Some 95 \<and> py_int ''Ann'' = None \<and> py_int ''Bo'' = None"
    by code_simp
  have q: "py_int ''1,000'' = None"
    by code_simp
  have c: "column_at (score_frame :: int dataframe) 1 = [S ''95'', S '''']"
    by code_simp
  have n: "numeric_cell py_int (S ''95'') = Some 95" "numeric_cell py_int (S '''') = None"
    by code_simp+
  have h: "rectangular (score_frame :: int dataframe) \<and> \<not> is_empty (score_frame :: int dataframe) \<and>
    1 < length (columns (drop_unnamed (dropna_all (score_frame :: int dataframe)))) \<and>
    \<not> skipped_label (columns (drop_unnamed (dropna_all (score_frame :: int dataframe))) ! 1) \<and>
    length (positions (columns (drop_unnamed (dropna_all (score_frame :: int dataframe))))
              (columns (drop_unnamed (dropna_all (score_frame :: int dataframe))) ! 1)) = 1"
    by code_simp
  have ex: "\<exists>c \<in> set (column_at (drop_unnamed (dropna_all (score_frame :: int dataframe))) 1).
              numeric_cell py_int c \<noteq> None"
    using score_frame_prepared c n by simp
  note inst = numeric_coercion_cells[where df = "score_frame :: int dataframe" and k = 1
      and p = py_int and n = 95 and x = "''1,000''"]
  from inst h ex
  have a: "column_at (clean_dataframe py_int score_frame) 1 =
      map (of_parsed \<circ> numeric_cell py_int)
        (column_at (drop_unnamed (dropna_all (score_frame :: int dataframe))) 1)"
    by blast
  from inst p
  have b: "clean_dataframe py_int score_frame =
     \<lparr>columns = [LStr ''Name'', LStr ''Score''], rows = [[S ''Ann'', N 95], [S ''Bo'', NA]]\<rparr>"
    by blast
  from inst q have d: "of_parsed (parse_int_safe (S ''1,000'')) = NA"
    by blast
  from a have "column_at (clean_dataframe py_int score_frame) 1 = [N 95, NA]"
    using score_frame_prepared c n by (simp add: of_parsed_def)
  with p q b d show ?thesis
    by simp
qed

section \<open>Properties of the connector\<close>

lemma alloc_simps:
  "fst (alloc df st) = next_addr st"
  "next_addr (snd (alloc df st)) = Suc (next_addr st)"
  "objs (snd (alloc df st)) x = (if x = next_addr st then df else objs st x)"
  by (simp_all add: alloc_def)


lemma get_sheet_data_miss:
  assumes "\<not> (use_cache \<and> is_cache_valid c (get_cache_key md5 c name) (t_valid env))"
  shows "get_sheet_data md5 p env name use_cache c st =
           (case load_data p env c of
              (Inl e, c') \<Rightarrow>
                if is_Exception e then (Inr (next_addr st), c', snd (alloc empty_frame st))
                else (Inl e, c', st)
            | (Inr df, c') \<Rightarrow>
                if use_cache
                then (Inr (next_addr st),
                      c'\<lparr>cache := (cache c')(get_cache_key md5 c name \<mapsto>
                            \<lparr>data = Suc (next_addr st), timestamp = t_store env\<rparr>)\<rparr>,
                      snd (alloc df (snd (alloc df st))))
                else (Inr (next_addr st), c', snd (alloc df st)))"
  using assms
  by (auto simp: get_sheet_data_def Let_def copy_frame_def alloc_def
      split: prod.splits sum.splits)



lemma load_data_worksheet_failure:
  "connected c \<Longrightarrow> worksheet_values env = Inl e \<Longrightarrow> load_data p env c = (Inl e, rate_limit env c)"
  by (simp add: load_data_def)







lemma fresh_connector_miss:
  "\<not> (uc \<and> is_cache_valid fresh_connector k now)"
  by (simp add: is_cache_valid_def fresh_connector_def)

lemma get_sheet_data_fresh:
  "get_sheet_data md5 p env name uc fresh_connector st =
     (case load_data p env fresh_connector of
        (Inl e, c') \<Rightarrow>
          if is_Exception e then (Inr (next_addr st), c', snd (alloc empty_frame st))
          else (Inl e, c', st)
      | (Inr df, c') \<Rightarrow>
          if uc
          then (Inr (next_addr st),
                c'\<lparr>cache := (cache c')(get_cache_key md5 fresh_connector name \<mapsto>
                      \<lparr>data = Suc (next_addr st), timestamp = t_store env\<rparr>)\<rparr>,
                snd (alloc df (snd (alloc df st))))
          else (Inr (next_addr st), c', snd (alloc df st)))"
  by (rule get_sheet_data_miss) (rule fresh_connector_miss)




text \<open>
  Claim C1, as stated, fails for \<open>get_sheet_data\<close>: a connected connector asked for a
  tab the spreadsheet does not have gets \<open>WorksheetNotFound\<close> from the worksheet
  lookup, and the call returns normally, with a new empty frame.
\<close>

theorem get_sheet_data_unknown_tab_counterexample:
  "connected fresh_connector \<and>
   worksheet_values unknown_tab_env = Inl (WorksheetNotFound ''Nope'') \<and>
   fst (get_sheet_data (\<lambda>s. s) py_int unknown_tab_env ''Nope'' True fresh_connector empty_store)
     = Inr 0 \<and>
   returned (get_sheet_data (\<lambda>s. s) py_int unknown_tab_env ''Nope'' True fresh_connector empty_store)
     = Some empty_frame"
proof -
  note m = get_sheet_data_fresh[where p = py_int and env = unknown_tab_env
      and st = empty_store and ?md5.0 = "\<lambda>s. s" and name = "''Nope''" and uc = True]
  have c: "connected fresh_connector"
    by (simp add: fresh_connector_def)
  have w: "worksheet_values unknown_tab_env = Inl (WorksheetNotFound ''Nope'')"
    by (simp add: unknown_tab_env_def)
  have n: "next_addr empty_store = 0"
    by (simp add: empty_store_def)
  show ?thesis
    unfolding m load_data_worksheet_failure[OF c w]
    by (simp add: c w n returned_def alloc_simps)
qed

text \<open>
  Claim C1, amended.  \<open>fetch_values\<close> reports a failure: when each of its 5 attempts
  raises, the exception of the last attempt is raised to the caller, and rows it
  returns are the rows of a call that answered.  \<open>get_sheet_data\<close> does not: when no
  valid cache entry answers and the worksheet lookup of a connected connector raises,
  an exception that \<open>except Exception\<close> catches is logged and the call returns a new
  empty frame, which is not cached; only an exception outside \<open>Exception\<close> reaches the
  caller.
\<close>

theorem fetch_failure_handling:
  "((\<forall>k<5. call (w k) = (Inl (e k), w (Suc k)) \<and> is_Exception (e k)) \<longrightarrow>
      fetch_values call rnd (w 0) = (Inl (e 4), w 5, failure_trace rnd 5 0.5 5 0 5)) \<and>
   (fetch_values call rnd s = (Inr vs, s', tr) \<longrightarrow>
      (\<exists>s0 r. call s0 = (Inr r, s') \<and> vs = (case r of Some v \<Rightarrow> v | None \<Rightarrow> []))) \<and>
   (connected c \<and> worksheet_values env = Inl err \<and>
    \<not> (use_cache \<and> is_cache_valid c (get_cache_key md5 c name) (t_valid env)) \<longrightarrow>
      get_sheet_data md5 p env name use_cache c st =
        (if is_Exception err
         then (Inr (next_addr st), rate_limit env c, snd (alloc empty_frame st))
         else (Inl err, rate_limit env c, st)) \<and>
      objs (snd (alloc empty_frame st)) (next_addr st) = empty_frame \<and>
      cache (rate_limit env c) = cache c)"
proof (intro conjI impI)
  assume "\<forall>k<5. call (w k) = (Inl (e k), w (Suc k)) \<and> is_Exception (e k)"
  then show "fetch_values call rnd (w 0) = (Inl (e 4), w 5, failure_trace rnd 5 0.5 5 0 5)"
    by (intro fetch_values_all_fail) simp
next
  assume "fetch_values call rnd s = (Inr vs, s', tr)"
  then show "\<exists>s0 r. call s0 = (Inr r, s') \<and> vs = (case r of Some v \<Rightarrow> v | None \<Rightarrow> [])"
    by (rule fetch_values_rows_origin)
next
  assume h: "connected c \<and> worksheet_values env = Inl err \<and>
    \<not> (use_cache \<and> is_cache_valid c (get_cache_key md5 c name) (t_valid env))"
  then have l: "load_data p env c = (Inl err, rate_limit env c)"
    by (simp add: load_data_worksheet_failure)
  from h have miss: "\<not> (use_cache \<and> is_cache_valid c (get_cache_key md5 c name) (t_valid env))"
    by simp
  show "get_sheet_data md5 p env name use_cache c st =
        (if is_Exception err
         then (Inr (next_addr st), rate_limit env c, snd (alloc empty_frame st))
         else (Inl err, rate_limit env c, st))"
    by (simp add: get_sheet_data_miss[OF miss] l)
  show "objs (snd (alloc empty_frame st)) (next_addr st) = empty_frame"
    by (simp add: alloc_simps)
  show "cache (rate_limit env c) = cache c"
    by (simp add: rate_limit_def)
qed

theorem fetch_failure_handling_witness:
  "fst (fetch_values always_not_found (\<lambda>i. 0) 0) = Inl (HttpError 404) \<and>
   fetch_values flaky_rows (\<lambda>i. 0) 0 =
     (Inr score_rows, 3, [Invoke, Warning 1 5, Sleep 0.35, Invoke, Warning 2 5, Sleep 0.7, Invoke]) \<and>
   flaky_rows 2 = (Inr (Some score_rows), 3) \<and>
   connected fresh_connector \<and>
   worksheet_values later_env = Inl (WorksheetNotFound ''Scores'') \<and>
   get_sheet_data (\<lambda>s. s) py_int later_env ''Scores'' True fresh_connector empty_store =
     (Inr 0, rate_limit later_env fresh_connector, snd (alloc empty_frame empty_store)) \<and>
   objs (snd (alloc empty_frame empty_store)) 0 = empty_frame"
proof -
  have nf: "\<forall>k<5. always_not_found (id k) = (Inl ((\<lambda>_. HttpError 404) k), id (Suc k)) \<and>
              is_Exception ((\<lambda>_. HttpError 404) k)"
    by (simp add: always_not_found_def)
  have fl: "\<And>k. k < 2 \<Longrightarrow> flaky_rows (id k) = (Inl ((\<lambda>_. HttpError 503) k), id (Suc k)) \<and>
              is_Exception ((\<lambda>_. HttpError 503) k)"
    by (simp add: flaky_rows_def)
  have ok: "flaky_rows (id 2) = (Inr (Some score_rows), 3)"
    by (simp add: flaky_rows_def)
  have tr: "failure_trace (\<lambda>i. 0) 5 0.5 5 0 2 @ [Invoke] =
            [Invoke, Warning 1 5, Sleep 0.35, Invoke, Warning 2 5, Sleep 0.7, Invoke]"
    by (simp add: failure_trace_def failure_events_def backoff_delay_def upt_conv_Cons)
  have "with_retries flaky_rows (\<lambda>i. 0) (int 5) 0.5 5 (id 0) =
        (Inr (Some score_rows), 3, failure_trace (\<lambda>i. 0) 5 0.5 5 0 2 @ [Invoke])"
    by (rule with_retries_fail_then_succeed[where m = 2 and e = "\<lambda>_. HttpError 503"])
       (use fl ok in simp_all)
  then have "with_retries flaky_rows (\<lambda>i. 0) 5 0.5 5 0 =
        (Inr (Some score_rows), 3,
         [Invoke, Warning 1 5, Sleep 0.35, Invoke, Warning 2 5, Sleep 0.7, Invoke])"
    unfolding tr by simp
  then have fv: "fetch_values flaky_rows (\<lambda>i. 0) 0 =
      (Inr score_rows, 3, [Invoke, Warning 1 5, Sleep 0.35, Invoke, Warning 2 5, Sleep 0.7, Invoke])"
    by (simp add: fetch_values_def)
  have c: "connected fresh_connector"
    by (simp add: fresh_connector_def)
  have wv: "worksheet_values later_env = Inl (WorksheetNotFound ''Scores'')"
    by (simp add: later_env_def)
  have n: "next_addr empty_store = 0"
    by (simp add: empty_store_def)
  note inst1 = fetch_failure_handling[where call = always_not_found and w = id
      and e = "\<lambda>_. HttpError 404" and rnd = "\<lambda>i. 0" and s = 0 and vs = score_rows
      and s' = 3 and c = fresh_connector and env = later_env
      and err = "WorksheetNotFound ''Scores''" and use_cache = True
      and ?md5.0 = "\<lambda>s. s" and name = "''Scores''" and p = py_int and st = empty_store]
  note inst2 = fetch_failure_handling[where call = flaky_rows and w = id
      and rnd = "\<lambda>i. 0" and s = 0 and vs = score_rows and s' = 3
      and tr = "[Invoke, Warning 1 5, Sleep 0.35, Invoke, Warning 2 5, Sleep 0.7, Invoke]"
      and c = fresh_connector and env = later_env and p = py_int and st = empty_store]
  from inst1 nf have a: "fetch_values always_not_found (\<lambda>i. 0) (id 0) =
      (Inl (HttpError 404), id 5, failure_trace (\<lambda>i. 0) 5 0.5 5 0 5)"
    by blast
  from inst2 fv have b: "\<exists>s0 r. flaky_rows s0 = (Inr r, 3) \<and>
      score_rows = (case r of Some v \<Rightarrow> v | None \<Rightarrow> [])"
    by blast
  from inst1 c wv fresh_connector_miss
  have g: "get_sheet_data (\<lambda>s. s) py_int later_env ''Scores'' True fresh_connector empty_store =
      (if is_Exception (WorksheetNotFound ''Scores'')
       then (Inr (next_addr empty_store), rate_limit later_env fresh_connector,
             snd (alloc empty_frame empty_store))
       else (Inl (WorksheetNotFound ''Scores''), rate_limit later_env fresh_connector, empty_store))"
    by blast
  show ?thesis
    using a fv ok c wv g by (simp add: n alloc_simps)
qed



section \<open>Properties of the data processor\<close>

lemma rint_0: "rint 0 = 0"
  by (simp add: rint_def)

lemma round2_0: "round2 0 = 0"
  by (simp add: round2_def rint_0)

lemma rint_of_int: "rint (of_int k) = k"
  by (simp add: rint_def)

lemma round2_1: "round2 1 = 1"
  using rint_of_int[of 100] by (simp add: round2_def)

lemma round2_80: "round2 80 = 80"
  using rint_of_int[of 8000] by (simp add: round2_def)

lemma consistency_score_zero_std: "consistency_score (Some 0) (Some m) = Fin 100"
  by (simp add: consistency_score_def)

lemma consistency_score_missing:
  "consistency_score None mean = Fin 100" "consistency_score std None = Fin 100"
  by (cases std; simp add: consistency_score_def)+

lemma group_score:
  "Consistency_Score (group_stats counts durations) =
     consistency_score (map_option round2 (agg_std counts)) (map_option round2 (agg_mean counts))"
  by (simp add: group_stats_def Let_def)

lemma agg_replicate:
  assumes "present counts = replicate n v"
  shows "n = 0 \<Longrightarrow> agg_mean counts = None"
    and "n < 2 \<Longrightarrow> agg_std counts = None"
    and "0 < n \<Longrightarrow> agg_mean counts = Some v"
    and "2 \<le> n \<Longrightarrow> agg_std counts = Some 0"
proof -
  show "n = 0 \<Longrightarrow> agg_mean counts = None"
    by (simp add: agg_mean_def assms)
  show "n < 2 \<Longrightarrow> agg_std counts = None"
    by (simp add: agg_std_def assms)
  show "0 < n \<Longrightarrow> agg_mean counts = Some v"
    by (simp add: agg_mean_def assms sum_list_replicate)
  assume n: "2 \<le> n"
  then have m: "sum_list (replicate n v) / real n = v"
    by (simp add: sum_list_replicate)
  have "map (\<lambda>y. (y - v)\<^sup>2) (replicate n v) = replicate n 0"
    by simp
  then have "sum_list (map (\<lambda>y. (y - v)\<^sup>2) (replicate n v)) = 0"
    by (simp add: sum_list_replicate)
  with n m show "agg_std counts = Some 0"
    by (simp add: agg_std_def assms Let_def)
qed

lemma all_equal_score:
  assumes "\<forall>x \<in> set (present counts). x = v"
  shows "Consistency_Score (group_stats counts durations) = Fin 100"
proof -
  define n where "n = length (present counts)"
  from assms have ys: "present counts = replicate n v"
    unfolding n_def by (simp add: replicate_length_same)
  show ?thesis
  proof (cases "n < 2")
    case True
    then show ?thesis
      by (simp add: group_score agg_replicate(2)[OF ys] consistency_score_missing)
  next
    case False
    then have "agg_std counts = Some 0" "agg_mean counts = Some v"
      by (simp_all add: agg_replicate[OF ys])
    then show ?thesis
      by (simp add: group_score round2_0 consistency_score_zero_std)
  qed
qed

lemma nonneg_zero_mean:
  assumes "\<forall>x \<in> set (present counts). 0 \<le> x" "agg_mean counts = Some 0"
  shows "\<forall>x \<in> set (present counts). x = 0"
proof -
  from assms(2) have ne: "present counts \<noteq> []" and "sum_list (present counts) / real (length (present counts)) = 0"
    by (auto simp: agg_mean_def Let_def split: if_splits)
  then have "sum_list (present counts) = 0"
    by simp
  with assms(1) show ?thesis
    by (simp add: sum_list_nonneg_eq_0_iff)
qed

lemma process_provider_data_row:
  assumes "process_provider_data to_numeric raw_data = Inr tbl" "tbl k = Some row"
  shows "Consistency_Score row = consistency_score (Patient_Count_std row) (Patient_Count_mean row)"
  using assms
  by (auto simp: process_provider_data_def group_stats_def Let_def
      split: option.splits if_splits sum.splits)

lemma present_simps:
  "present [] = []" "present (Some x # xs) = x # present xs" "present (None # xs) = present xs"
  by (simp_all add: present_def map_filter_simps)

lemma provider_positions:
  "column_pos (columns provider_frame) ''Provider'' e = Inr 0"
  "column_pos (columns provider_frame) ''Patient Count'' e = Inr 1"
  "column_pos (columns provider_frame) ''Avg Session Duration'' e = Inr 2"
  by (simp_all add: column_pos_def positions_def provider_frame_def upt_conv_Cons)

lemma process_provider_data_sheets:
  "process_provider_data p provider_sheets =
     Inr (\<lambda>k. if k = NA \<or> k \<notin> set (column_at provider_frame 0) then None
              else Some (group_stats
                     (map (\<lambda>r. to_numeric_coerce p (r ! Suc 0))
                        (filter (\<lambda>r. r ! 0 = k) (rows provider_frame)))
                     (map (\<lambda>r. to_numeric_coerce p (r ! 2))
                        (filter (\<lambda>r. r ! 0 = k) (rows provider_frame)))))"
proof -
  have "\<not> is_empty provider_frame"
    by (simp add: is_empty_def provider_frame_def)
  then show ?thesis
    by (simp add: process_provider_data_def provider_sheets_def provider_positions Let_def
        cong: if_cong)
qed

lemma provider_groups:
  "map (\<lambda>r. to_numeric_coerce p (r ! Suc 0)) (filter (\<lambda>r. r ! 0 = S ''Dr A'') (rows provider_frame))
     = [Some 80, Some 80, Some 80]"
  "map (\<lambda>r. to_numeric_coerce p (r ! Suc 0)) (filter (\<lambda>r. r ! 0 = S ''Dr B'') (rows provider_frame))
     = [Some (- 1), Some 0, Some 1]"
  "S ''Dr A'' \<in> set (column_at provider_frame 0)"
  "S ''Dr B'' \<in> set (column_at provider_frame 0)"
  by (simp_all add: provider_frame_def column_at_def)

lemma spread_counts:
  "agg_mean [Some (- 1), Some 0, Some 1] = Some 0"
  "agg_std [Some (- 1), Some 0, Some 1] = Some 1"
  by (simp_all add: agg_mean_def agg_std_def present_simps Let_def)

text \<open>
  Claim C8, as stated, fails: the counts \<open>-1\<close>, 0 and 1 of one provider have the mean 0
  and the standard deviation 1; the quotient is infinite, \<open>fillna(100)\<close> leaves it, and
  the score of the provider is infinite, not 100.
\<close>

theorem consistency_score_zero_mean_counterexample:
  "agg_mean [Some (- 1), Some 0, Some 1] = Some 0 \<and>
   (case process_provider_data (\<lambda>s. None) provider_sheets of
      Inl e \<Rightarrow> None
    | Inr tbl \<Rightarrow> map_option Consistency_Score (tbl (S ''Dr B''))) = Some Infinite"
  by (simp add: process_provider_data_sheets provider_groups group_score spread_counts
      round2_0 round2_1 consistency_score_def)

text \<open>
  Claim C8, amended.  The score of every row of the provider table is
  \<open>(100 - std / mean * 100).fillna(100)\<close> of the row's own columns, which hold the
  standard deviation and the mean of the group rounded to two decimals.  With a mean
  other than 0 it is \<open>100 - std / mean * 100\<close>.  It is 100 when the mean is missing,
  when the standard deviation is missing (a group of fewer than two numbers), and when
  both are 0.  With the mean 0 and a standard deviation other than 0 it is infinite.
  A group whose numbers are all equal scores 100, and so does a group of numbers none
  of which is negative and whose mean is 0.
\<close>

theorem consistency_score_cases:
  "(process_provider_data to_numeric raw_data = Inr tbl \<and> tbl k = Some row \<longrightarrow>
      Consistency_Score row =
        consistency_score (Patient_Count_std row) (Patient_Count_mean row)) \<and>
   Consistency_Score (group_stats counts durations) =
     consistency_score (map_option round2 (agg_std counts))
       (map_option round2 (agg_mean counts)) \<and>
   (m \<noteq> 0 \<longrightarrow> consistency_score (Some s) (Some m) = Fin (100 - s / m * 100)) \<and>
   consistency_score std None = Fin 100 \<and>
   consistency_score None mean = Fin 100 \<and>
   consistency_score (Some 0) (Some 0) = Fin 100 \<and>
   (s \<noteq> 0 \<longrightarrow> consistency_score (Some s) (Some 0) = Infinite) \<and>
   ((\<forall>x \<in> set (present counts). x = v) \<longrightarrow>
      Consistency_Score (group_stats counts durations) = Fin 100) \<and>
   ((\<forall>x \<in> set (present counts). 0 \<le> x) \<and> agg_mean counts = Some 0 \<longrightarrow>
      Consistency_Score (group_stats counts durations) = Fin 100) \<and>
   (agg_mean counts = None \<longrightarrow>
      Consistency_Score (group_stats counts durations) = Fin 100)"
proof (intro conjI impI)
  assume "process_provider_data to_numeric raw_data = Inr tbl \<and> tbl k = Some row"
  then show "Consistency_Score row =
      consistency_score (Patient_Count_std row) (Patient_Count_mean row)"
    by (intro process_provider_data_row[of to_numeric raw_data tbl k]) simp_all
next
  show "Consistency_Score (group_stats counts durations) =
     consistency_score (map_option round2 (agg_std counts))
       (map_option round2 (agg_mean counts))"
    by (rule group_score)
next
  assume "m \<noteq> 0"
  then show "consistency_score (Some s) (Some m) = Fin (100 - s / m * 100)"
    by (simp add: consistency_score_def)
next
  show "consistency_score std None = Fin 100"
    by (rule consistency_score_missing)
  show "consistency_score None mean = Fin 100"
    by (rule consistency_score_missing)
  show "consistency_score (Some 0) (Some 0) = Fin 100"
    by (rule consistency_score_zero_std)
next
  assume "s \<noteq> 0"
  then show "consistency_score (Some s) (Some 0) = Infinite"
    by (simp add: consistency_score_def)
next
  assume "\<forall>x \<in> set (present counts). x = v"
  then show "Consistency_Score (group_stats counts durations) = Fin 100"
    by (rule all_equal_score)
next
  assume "(\<forall>x \<in> set (present counts). 0 \<le> x) \<and> agg_mean counts = Some 0"
  then have "\<forall>x \<in> set (present counts). x = 0"
    by (intro nonneg_zero_mean) simp_all
  then show "Consistency_Score (group_stats counts durations) = Fin 100"
    by (rule all_equal_score)
next
  assume "agg_mean counts = None"
  then show "Consistency_Score (group_stats counts durations) = Fin 100"
    by (simp add: group_score consistency_score_missing)
qed

theorem consistency_score_cases_witness:
  "(case process_provider_data (\<lambda>s. None) provider_sheets of
      Inl e \<Rightarrow> None
    | Inr tbl \<Rightarrow> map_option Consistency_Score (tbl (S ''Dr A''))) = Some (Fin 100) \<and>
   present [Some 80, None, Some 80, Some 80] = [80, 80, 80] \<and>
   Consistency_Score (group_stats [Some 80, None, Some 80, Some 80] []) = Fin 100 \<and>
   agg_mean [Some 0, Some 0] = Some 0 \<and>
   Consistency_Score (group_stats [Some 0, Some 0] []) = Fin 100 \<and>
   agg_mean [None] = None \<and>
   Consistency_Score (group_stats [None] []) = Fin 100 \<and>
   consistency_score (Some 5) (Some 50) = Fin 90 \<and>
   consistency_score (Some 1) (Some 0) = Infinite"
proof -
  have p80: "present [Some 80, None, Some 80, Some (80::real)] = [80, 80, 80]"
    by (simp add: present_simps)
  have all80: "\<forall>x \<in> set (present [Some 80, None, Some 80, Some (80::real)]). x = 80"
    by (simp add: present_simps)
  have zero: "(\<forall>x \<in> set (present [Some 0, Some (0::real)]). 0 \<le> x) \<and>
      agg_mean [Some 0, Some 0] = Some 0"
    by (simp add: present_simps agg_mean_def)
  have none: "agg_mean [None] = None"
    by (simp add: present_simps agg_mean_def)
  note inst80 = consistency_score_cases[where counts = "[Some 80, None, Some 80, Some 80]"
      and v = 80 and durations = "[]" and s = 5 and m = 50
      and to_numeric = "\<lambda>s. None" and raw_data = provider_sheets]
  note inst0 = consistency_score_cases[where counts = "[Some 0, Some 0]" and durations = "[]"
      and s = 1]
  note instn = consistency_score_cases[where counts = "[None]" and durations = "[]"]
  from inst80 all80 have a: "Consistency_Score (group_stats [Some 80, None, Some 80, Some 80] []) = Fin 100"
    by blast
  from inst0 zero have b: "Consistency_Score (group_stats [Some 0, Some 0] []) = Fin 100"
    by blast
  from instn none have c: "Consistency_Score (group_stats [None] []) = Fin 100"
    by blast
  from inst80 have d: "consistency_score (Some 5) (Some 50) = Fin (100 - 5 / 50 * 100)"
    by simp
  from inst0 have e: "consistency_score (Some 1) (Some 0) = Infinite"
    by simp
  have f: "(case process_provider_data (\<lambda>s. None) provider_sheets of
      Inl e \<Rightarrow> None
    | Inr tbl \<Rightarrow> map_option Consistency_Score (tbl (S ''Dr A''))) = Some (Fin 100)"
  proof -
    have "\<forall>x \<in> set (present [Some 80, Some 80, Some (80::real)]). x = 80"
      by (simp add: present_simps)
    then have "Consistency_Score (group_stats [Some 80, Some 80, Some 80] ds) = Fin 100" for ds
      by (rule all_equal_score)
    then show ?thesis
      by (simp add: process_provider_data_sheets provider_groups)
  qed
  from a b c d e f p80 zero none show ?thesis
    by simp
qed

text \<open>
  Claim C9.  The accessors are functions of the snapshot, so repeated calls give the
  same result, and \<open>get_team_comparison\<close> gives the empty mapping when the snapshot has
  no metrics or the metrics have no team comparison.  On a table of scribes in which
  exactly one column is labelled \<open>Scribe Name\<close>, the query for a name (not the empty
  string) returns the rows with that name, none when no row has it.  On a table with no
  such column the query raises \<open>KeyError\<close>; the snapshot of a processor built without the
  sheet \<open>Dataset\<close> holds such a table, the empty one.  The query for the empty string
  returns what the query for no name returns, the whole table.
\<close>

theorem get_scribe_performance_cases:
  "(scribes pd = Some df \<and> positions (columns df) (LStr ''Scribe Name'') = [j] \<and> name \<noteq> [] \<longrightarrow>
      get_scribe_performance pd (Some name) =
        Inr (df\<lparr>rows := filter (\<lambda>r. r ! j = S name) (rows df)\<rparr>) \<and>
      (S name \<notin> set (column_at df j) \<longrightarrow>
         get_scribe_performance pd (Some name) = Inr (df\<lparr>rows := []\<rparr>))) \<and>
   (scribes pd = Some df \<and> LStr ''Scribe Name'' \<notin> set (columns df) \<and> name \<noteq> [] \<longrightarrow>
      get_scribe_performance pd (Some name) = Inl (KeyError ''Scribe Name'')) \<and>
   (name \<noteq> [] \<and>
    process_all_data derive to_numeric process_sessions calculate_metrics Map.empty = Inr snapshot \<longrightarrow>
      get_scribe_performance snapshot (Some name) = Inl (KeyError ''Scribe Name'')) \<and>
   (scribes pd = None \<longrightarrow> get_scribe_performance pd scribe_name = Inr empty_frame) \<and>
   get_scribe_performance pd (Some []) = get_scribe_performance pd None \<and>
   (metrics pd = None \<longrightarrow> get_team_comparison pd = Table []) \<and>
   (metrics pd = Some ms \<and> ms ''team_comparison'' = None \<longrightarrow> get_team_comparison pd = Table [])"
proof (intro conjI impI)
  assume h: "scribes pd = Some df \<and> positions (columns df) (LStr ''Scribe Name'') = [j] \<and> name \<noteq> []"
  then show r: "get_scribe_performance pd (Some name) =
        Inr (df\<lparr>rows := filter (\<lambda>r. r ! j = S name) (rows df)\<rparr>)"
    by (simp add: get_scribe_performance_def column_pos_def)
  assume "S name \<notin> set (column_at df j)"
  then have "\<forall>r \<in> set (rows df). r ! j \<noteq> S name"
    unfolding column_at_def by (metis image_eqI set_map)
  then have "filter (\<lambda>r. r ! j = S name) (rows df) = []"
    by (simp add: filter_empty_conv)
  with r show "get_scribe_performance pd (Some name) = Inr (df\<lparr>rows := []\<rparr>)"
    by simp
next
  assume h: "scribes pd = Some df \<and> LStr ''Scribe Name'' \<notin> set (columns df) \<and> name \<noteq> []"
  then have "\<forall>i < length (columns df). columns df ! i \<noteq> LStr ''Scribe Name''"
    by (metis nth_mem)
  then have "positions (columns df) (LStr ''Scribe Name'') = []"
    by (simp add: positions_def filter_empty_conv)
  with h show "get_scribe_performance pd (Some name) = Inl (KeyError ''Scribe Name'')"
    by (simp add: get_scribe_performance_def column_pos_def)
next
  assume h: "name \<noteq> [] \<and>
    process_all_data derive to_numeric process_sessions calculate_metrics Map.empty = Inr snapshot"
  then have "scribes snapshot = Some empty_frame"
    by (auto simp: process_all_data_def process_scribe_data_def process_provider_data_def
        handled_def split: sum.splits if_splits)
  with h show "get_scribe_performance snapshot (Some name) = Inl (KeyError ''Scribe Name'')"
    by (simp add: get_scribe_performance_def column_pos_def positions_def empty_frame_def)
next
  assume "scribes pd = None"
  then show "get_scribe_performance pd scribe_name = Inr empty_frame"
    by (simp add: get_scribe_performance_def)
next
  show "get_scribe_performance pd (Some []) = get_scribe_performance pd None"
    by (simp add: get_scribe_performance_def split: option.splits)
next
  assume "metrics pd = None"
  then show "get_team_comparison pd = Table []"
    by (simp add: get_team_comparison_def)
next
  assume "metrics pd = Some ms \<and> ms ''team_comparison'' = None"
  then show "get_team_comparison pd = Table []"
    by (simp add: get_team_comparison_def)
qed

theorem get_scribe_performance_cases_witness:
  "get_scribe_performance \<lparr>scribes = Some scribe_frame, metrics = None\<rparr> (Some ''Ann'') =
     Inr scribe_frame \<and>
   get_scribe_performance \<lparr>scribes = Some scribe_frame, metrics = None\<rparr> (Some ''Zed'') =
     Inr (scribe_frame\<lparr>rows := []\<rparr>) \<and>
   process_all_data Inr (\<lambda>s. None) (\<lambda>sheets. Inr empty_frame) (\<lambda>df. Inr Map.empty) Map.empty =
     Inr \<lparr>scribes = Some empty_frame, metrics = Some Map.empty\<rparr> \<and>
   get_scribe_performance \<lparr>scribes = Some empty_frame, metrics = Some Map.empty\<rparr> (Some ''Ann'') =
     Inl (KeyError ''Scribe Name'') \<and>
   get_scribe_performance \<lparr>scribes = None, metrics = None\<rparr> (Some ''Ann'') = Inr empty_frame \<and>
   get_team_comparison \<lparr>scribes = Some scribe_frame, metrics = None\<rparr> = Table [] \<and>
   get_team_comparison \<lparr>scribes = Some empty_frame, metrics = Some Map.empty\<rparr> = Table []"
proof -
  have pos: "positions (columns scribe_frame) (LStr ''Scribe Name'') = [0]"
    by (simp add: positions_def scribe_frame_def upt_conv_Cons)
  have col: "column_at scribe_frame 0 = [S ''Ann'']"
    by (simp add: column_at_def scribe_frame_def)
  have run: "process_all_data Inr (\<lambda>s. None) (\<lambda>sheets. Inr empty_frame) (\<lambda>df. Inr Map.empty) Map.empty =
     Inr \<lparr>scribes = Some empty_frame, metrics = Some Map.empty\<rparr>"
    by (simp add: process_all_data_def process_scribe_data_def process_provider_data_def)
  note inst1 = get_scribe_performance_cases[where pd = "\<lparr>scribes = Some scribe_frame, metrics = None\<rparr>"
      and df = scribe_frame and j = 0 and name = "''Ann''"]
  note inst2 = get_scribe_performance_cases[where pd = "\<lparr>scribes = Some scribe_frame, metrics = None\<rparr>"
      and df = scribe_frame and j = 0 and name = "''Zed''"]
  note inst3 = get_scribe_performance_cases[where pd = "\<lparr>scribes = Some empty_frame, metrics = Some Map.empty\<rparr>"
      and df = empty_frame and name = "''Ann''" and derive = Inr and to_numeric = "\<lambda>s. None"
      and process_sessions = "\<lambda>sheets. Inr empty_frame" and calculate_metrics = "\<lambda>df. Inr Map.empty"
      and snapshot = "\<lparr>scribes = Some empty_frame, metrics = Some Map.empty\<rparr>"
      and ms = Map.empty]
  note inst4 = get_scribe_performance_cases[where pd = "\<lparr>scribes = None, metrics = None\<rparr>"
      and scribe_name = "Some ''Ann''"]
  from inst1 pos have a: "get_scribe_performance \<lparr>scribes = Some scribe_frame, metrics = None\<rparr>
      (Some ''Ann'') = Inr (scribe_frame\<lparr>rows := filter (\<lambda>r. r ! 0 = S ''Ann'') (rows scribe_frame)\<rparr>)"
    by simp
  have nz: "S ''Zed'' \<notin> set (column_at scribe_frame 0)" "''Zed'' \<noteq> []"
    "scribes \<lparr>scribes = Some scribe_frame, metrics = None\<rparr> = Some scribe_frame"
    by (simp_all add: col)
  from inst2 pos nz have b: "get_scribe_performance \<lparr>scribes = Some scribe_frame, metrics = None\<rparr>
      (Some ''Zed'') = Inr (scribe_frame\<lparr>rows := []\<rparr>)"
    by blast
  from inst3 run have c: "get_scribe_performance \<lparr>scribes = Some empty_frame, metrics = Some Map.empty\<rparr>
      (Some ''Ann'') = Inl (KeyError ''Scribe Name'')"
    by simp
  from inst3 have d: "get_team_comparison \<lparr>scribes = Some empty_frame, metrics = Some Map.empty\<rparr> = Table []"
    by simp
  from inst4 have e: "get_scribe_performance \<lparr>scribes = None, metrics = None\<rparr> (Some ''Ann'') = Inr empty_frame"
    by simp
  from inst1 have f: "get_team_comparison \<lparr>scribes = Some scribe_frame, metrics = None\<rparr> = Table []"
    by simp
  from a b c d e f run show ?thesis
    by (simp add: scribe_frame_def)
qed

end
